theory Spec2Isabelle
  imports Main "HOL-Library.Sublist"
begin

section \<open>JavaScript strings, errors and conversions\<close>

text \<open>
  A JavaScript string is a sequence of UTF-16 code units. It is modelled as a \<^typ>\<open>string\<close>
  whose characters stand for the code units below 256; the white space and the line
  terminators of ECMAScript in that range are listed below (the ones above it, such as
  U+2028 or U+FEFF, have no counterpart in the model).
\<close>

definition nl :: string where
  "nl = [CHR 0x0A]"

definition dq :: string where
  "dq = [CHR 0x22]"

text \<open>\<^verbatim>\<open>\s\<close> of a regular expression and the characters removed by \<^verbatim>\<open>String.prototype.trim\<close>.\<close>

definition is_space :: "char \<Rightarrow> bool" where
  "is_space c \<longleftrightarrow>
     c = CHR 0x09 \<or> c = CHR 0x0A \<or> c = CHR 0x0B \<or> c = CHR 0x0C \<or> c = CHR 0x0D \<or>
     c = CHR 0x20 \<or> c = CHR 0xA0"

text \<open>The characters that \<^verbatim>\<open>.\<close> of a regular expression does not match.\<close>

definition is_line_terminator :: "char \<Rightarrow> bool" where
  "is_line_terminator c \<longleftrightarrow> c = CHR 0x0A \<or> c = CHR 0x0D"

definition trim :: "string \<Rightarrow> string" where
  "trim s = rev (dropWhile is_space (rev (dropWhile is_space s)))"

text \<open>
  A thrown value is an error object with a name and a message. \<open>error_toString\<close> is
  \<^verbatim>\<open>Error.prototype.toString\<close>, which is what a template literal \<^verbatim>\<open>${e}\<close>,
  \<^verbatim>\<open>e.toString()\<close> and the conversion of \<^verbatim>\<open>e\<close> by \<^verbatim>\<open>RegExp.prototype.exec\<close> produce. The
  messages of the type errors below are the engine's; nothing depends on their wording.
\<close>

datatype js_error = JsError (err_name: string) (err_message: string)

definition Error :: "string \<Rightarrow> js_error" where
  "Error msg = JsError ''Error'' msg"

definition TypeError :: "string \<Rightarrow> js_error" where
  "TypeError msg = JsError ''TypeError'' msg"

definition SyntaxError :: "string \<Rightarrow> js_error" where
  "SyntaxError msg = JsError ''SyntaxError'' msg"

definition error_toString :: "js_error \<Rightarrow> string" where
  "error_toString e =
     (if err_name e = [] then err_message e
      else if err_message e = [] then err_name e
      else err_name e @ '': '' @ err_message e)"

text \<open>A template literal \<^verbatim>\<open>${v}\<close> of a value that is a string or \<^verbatim>\<open>undefined\<close> (\<open>None\<close>).\<close>

definition template :: "string option \<Rightarrow> string" where
  "template v = (case v of None \<Rightarrow> ''undefined'' | Some s \<Rightarrow> s)"

text \<open>A template literal \<^verbatim>\<open>${n}\<close> of a number that is a natural number: its decimal digits.\<close>

fun string_of_nat :: "nat \<Rightarrow> string" where
  "string_of_nat n =
     (if n < 10 then [char_of (48 + n)]
      else string_of_nat (n div 10) @ [char_of (48 + n mod 10)])"

declare string_of_nat.simps [simp del]

section \<open>Data model\<close>

text \<open>
  The streamed response of the generation service, as the program reads it: a chunk has an
  optional list of candidates, a candidate an optional content, a content an optional list
  of parts, and a part an optional text and an optional inline image payload (the base64
  \<^verbatim>\<open>data\<close> of \<^verbatim>\<open>inlineData\<close>). \<open>None\<close> is \<^verbatim>\<open>undefined\<close>.
\<close>

datatype part = Part (part_text: "string option") (inlineData: "string option")

datatype content = Content (parts: "part list option")

datatype candidate = Candidate (content: "content option")

datatype chunk = Chunk (candidates: "candidate list option")

text \<open>
  A stream is consumed once, front to back: it yields its chunks and then either ends or
  throws (\<open>failure\<close>). A request that is rejected before the first chunk is a stream with
  no chunks and a failure.
\<close>

record stream =
  chunks :: "chunk list"
  failure :: "js_error option"

text \<open>An \<^verbatim>\<open>img\<close> element, identified by its \<^verbatim>\<open>src\<close>.\<close>

datatype img = Img (src: string)

text \<open>
  A slide is the \<^verbatim>\<open>div.slide\<close> that \<^verbatim>\<open>addSlide(text, image)\<close> appends: the image and a
  caption. The caption's HTML is \<^verbatim>\<open>marked.parse(text)\<close>; the slide records the text it
  is rendered from.
\<close>

datatype slide = Slide (slide_text: string) (slide_image: img)

text \<open>A request sent to the generation service.\<close>

datatype request = SendMessage string | SendMessageStream string

text \<open>
  The page: the elements the program reads and writes, and the log of the requests issued so
  far. \<open>modelOutput\<close> lists the sources of the user turns appended to \<^verbatim>\<open>#output\<close>.
\<close>

record page =
  userInput_disabled :: bool
  userInput_value :: string
  modelOutput :: "string list"
  slideshow :: "slide list"
  slideshow_hidden :: bool
  status_text :: string
  status_hidden :: bool
  error_html :: string
  error_hidden :: bool
  requests :: "request list"

text \<open>
  The text a part contributes: \<^verbatim>\<open>if (part.text)\<close> holds when the text is present and not
  empty, so an absent and an empty text are the same to the program.
\<close>

definition text_of :: "part \<Rightarrow> string" where
  "text_of p = (case part_text p of None \<Rightarrow> [] | Some t \<Rightarrow> t)"

text \<open>The local variables \<^verbatim>\<open>text\<close> and \<^verbatim>\<open>img\<close> of a run, together with the page.\<close>

type_synonym locals = "string \<times> img option \<times> page"

section \<open>src/index.tsx\<close>

definition additionalInstructions_index :: string where
  "additionalInstructions_index = concat
    [nl,
     ''You are a master storyteller and comic artist. Your task is to take a user's story or prompt and turn it into a photorealistic comic strip.'', nl,
     nl,
     ''**CRITICAL INSTRUCTIONS:**'', nl,
     ''1.  **Character Consistency:** You MUST maintain the appearance of the main character(s) in every single image. Create a clear mental model of the character(s) based on the story and stick to it. If the story doesn't describe them, create a consistent appearance yourself.'', nl,
     ''2.  **Style:** Generate a photorealistic, cinematic image for each panel. The lighting and color palette should be consistent, as if from a single film. The style should be tasteful and artistic.'', nl,
     ''3.  **Format:** Break the story down into short, single-sentence panels. For each sentence, first provide the text, then generate the corresponding image.'', nl,
     ''4.  **Process:**'', nl,
     ''    - Read the entire story provided by the user.'', nl,
     ''    - Break it down into key moments or single sentences.'', nl,
     ''    - For each moment:'', nl,
     ''        a. Output the sentence as text.'', nl,
     ''        b. Output a single, corresponding photorealistic image.'', nl,
     ''5.  **No Commentary:** Do not add any extra text, explanations, or commentary. Just the story text and the images. Begin the comic immediately.'', nl]"

definition addSlide_index :: "string \<Rightarrow> img \<Rightarrow> page \<Rightarrow> page" where
  "addSlide_index text img st = st\<lparr>slideshow := slideshow st @ [Slide text img]\<rparr>"

subsection \<open>parseError\<close>

text \<open>
  \<^verbatim>\<open>JSON.parse\<close> is the JavaScript built-in. It is a parameter of the model: \<open>Inl e\<close> when
  it throws, \<open>Inr None\<close> when the text denotes \<^verbatim>\<open>null\<close>, and otherwise the parsed value
  seen as the program uses it, a value whose \<^verbatim>\<open>message\<close> property is a string or is
  absent (as it is on every number, string, boolean, array and on an object without that
  key).
\<close>

datatype payload = Payload (payload_message: "string option")

text \<open>
  \<^verbatim>\<open>/{"error":(.*)}/gm.exec(error)\<close> on a fresh expression object: the leftmost position
  where the literal matches and the rest of the line holds a closing brace; the group is
  greedy, so it extends to the last closing brace of that line.
\<close>

definition capture_greedy :: "string \<Rightarrow> string option" where
  "capture_greedy rest =
     (let line = takeWhile (\<lambda>c. \<not> is_line_terminator c) rest
      in if CHR ''}'' \<in> set line
         then Some (rev (tl (dropWhile (\<lambda>c. c \<noteq> CHR ''}'') (rev line))))
         else None)"

fun regex_exec :: "string \<Rightarrow> string option" where
  "regex_exec [] = None"
| "regex_exec (c # cs) =
     (if prefix (''{'' @ dq @ ''error'' @ dq @ '':'') (c # cs)
      then (case capture_greedy (drop 9 (c # cs)) of
              Some e \<Rightarrow> Some e
            | None \<Rightarrow> regex_exec cs)
      else regex_exec cs)"

text \<open>
  The result is \<^verbatim>\<open>err.message\<close> (\<open>None\<close> when it is \<^verbatim>\<open>undefined\<close>), or the argument when
  the \<^verbatim>\<open>try\<close> block throws: on \<^verbatim>\<open>m[1]\<close> when there is no match, in \<^verbatim>\<open>JSON.parse\<close>, or
  on \<^verbatim>\<open>err.message\<close> when \<^verbatim>\<open>err\<close> is \<^verbatim>\<open>null\<close>.
\<close>

definition parseError_index ::
    "(string \<Rightarrow> js_error + payload option) \<Rightarrow> string \<Rightarrow> string option" where
  "parseError_index JSON_parse error =
     (case regex_exec error of
        None \<Rightarrow> Some error
      | Some e \<Rightarrow>
          (case JSON_parse e of
             Inl _ \<Rightarrow> Some error
           | Inr None \<Rightarrow> Some error
           | Inr (Some err) \<Rightarrow> payload_message err))"

subsection \<open>generate\<close>

text \<open>
  The body of the innermost loop (lines 88 to 108): absorb the part, then pair. The inner
  \<^verbatim>\<open>try\<close> block reads \<^verbatim>\<open>part.inlineData\<close> of a part whose \<^verbatim>\<open>text\<close> was just read, so it does not
  throw, and \<^verbatim>\<open>console.log\<close> leaves the page as it is.
\<close>

definition generate_index_part :: "part \<Rightarrow> locals \<Rightarrow> locals" where
  "generate_index_part p = (\<lambda>(text, img, st).
     let (text, img) =
           (if text_of p \<noteq> [] then (text @ text_of p, img)
            else (case inlineData p of
                    Some d \<Rightarrow> (text, Some (Img (''data:image/png;base64,'' @ d)))
                  | None \<Rightarrow> (text, img)))
     in (case img of
           Some i \<Rightarrow>
             if text \<noteq> []
             then ([], None, (addSlide_index text i st)\<lparr>slideshow_hidden := False\<rparr>)
             else (text, img, st)
         | None \<Rightarrow> (text, img, st)))"

text \<open>
  \<^verbatim>\<open>for (const candidate of chunk.candidates)\<close> with
  \<^verbatim>\<open>for (const part of candidate.content.parts ?? [])\<close>: a candidate without content throws.
\<close>

fun generate_index_candidates :: "candidate list \<Rightarrow> locals \<Rightarrow> locals \<times> js_error option" where
  "generate_index_candidates [] s = (s, None)"
| "generate_index_candidates (c # cs) s =
     (case content c of
        None \<Rightarrow> (s, Some (TypeError ''candidate.content is undefined''))
      | Some ct \<Rightarrow>
          generate_index_candidates cs
            (fold generate_index_part (case parts ct of None \<Rightarrow> [] | Some ps \<Rightarrow> ps) s))"

text \<open>\<^verbatim>\<open>for await (const chunk of result)\<close>: a chunk without candidates throws.\<close>

fun generate_index_chunks :: "chunk list \<Rightarrow> locals \<Rightarrow> locals \<times> js_error option" where
  "generate_index_chunks [] s = (s, None)"
| "generate_index_chunks (ch # chs) s =
     (case candidates ch of
        None \<Rightarrow> (s, Some (TypeError ''chunk.candidates is not iterable''))
      | Some cs \<Rightarrow>
          (case generate_index_candidates cs s of
             (s', Some e) \<Rightarrow> (s', Some e)
           | (s', None) \<Rightarrow> generate_index_chunks chs s'))"

text \<open>
  \<open>chat\<close> is the reply of \<^verbatim>\<open>chat.sendMessageStream\<close> to a message. The \<^verbatim>\<open>try\<close> block
  ends with the first error: of a chunk, or of the stream after its last chunk. The
  function has no guard: it runs on every message. Clearing the history of the chat and
  focusing the input are not effects on the page of the model.
\<close>

definition generate_index ::
    "(string \<Rightarrow> js_error + payload option) \<Rightarrow> (string \<Rightarrow> stream) \<Rightarrow> string \<Rightarrow> page \<Rightarrow> page" where
  "generate_index JSON_parse chat message st0 =
     (let st = st0\<lparr>userInput_disabled := True, modelOutput := [], slideshow := [],
                   error_html := [], error_hidden := True\<rparr>;
          st = st\<lparr>modelOutput := modelOutput st @ [message], userInput_value := []\<rparr>;
          st = st\<lparr>requests := requests st @
                  [SendMessageStream (message @ additionalInstructions_index)]\<rparr>;
          result = chat (message @ additionalInstructions_index);
          ((text, img, st), thrown) = generate_index_chunks (chunks result) ([], None, st);
          thrown = (case thrown of Some e \<Rightarrow> Some e | None \<Rightarrow> failure result);
          st = (case thrown of
                  None \<Rightarrow>
                    (case img of
                       Some i \<Rightarrow> (addSlide_index text i st)\<lparr>slideshow_hidden := False\<rparr>
                     | None \<Rightarrow> st)
                | Some e \<Rightarrow>
                    st\<lparr>error_html := ''Something went wrong: '' @
                           template (parseError_index JSON_parse (error_toString e)),
                       error_hidden := False\<rparr>)
      in st\<lparr>userInput_disabled := False\<rparr>)"

section \<open>src/unnamed/part_000\<close>

definition additionalInstructions_000 :: string where
  "additionalInstructions_000 = concat
    [nl,
     ''You are a master storyteller and comic artist. Your task is to take a user's story or prompt and turn it into a photorealistic comic strip.'', nl,
     ''**CRITICAL INSTRUCTIONS:**'', nl,
     ''1.  **Character Consistency:** You MUST maintain the appearance of the main character(s) in every single image. Create a clear mental model of the character(s) based on the story and stick to it. If the story doesn't describe them, create a consistent appearance yourself.'', nl,
     ''2.  **Style:** Generate a photorealistic, cinematic image for each panel. The lighting and color palette should be consistent, as if from a single film. The style should be tasteful and artistic.'', nl,
     ''3.  **Format:** Break the story down into short, single-sentence panels. For each sentence, first provide the text, then generate the corresponding image.'', nl,
     ''4.  **Process:** For each moment: a. Output the sentence as text. b. Output a single, corresponding photorealistic image.'', nl,
     ''5.  **No Commentary:** Do not add any extra text, explanations, or commentary. Just the story text and the images. Begin the comic immediately.'', nl]"

definition addSlide_000 :: "string \<Rightarrow> img \<Rightarrow> page \<Rightarrow> page" where
  "addSlide_000 text img st = st\<lparr>slideshow := slideshow st @ [Slide text img]\<rparr>"

definition parseError_000 :: "js_error \<Rightarrow> string" where
  "parseError_000 e = error_toString e"

text \<open>The body of the innermost loop (lines 104 to 115).\<close>

definition generate_000_part :: "part \<Rightarrow> locals \<Rightarrow> locals" where
  "generate_000_part p = (\<lambda>(text, img, st).
     let (text, img) =
           (if text_of p \<noteq> [] then (text @ text_of p, img)
            else (case inlineData p of
                    Some d \<Rightarrow> (text, Some (Img (''data:image/png;base64,'' @ d)))
                  | None \<Rightarrow> (text, img)))
     in (case img of
           Some i \<Rightarrow>
             if text \<noteq> []
             then ([], None, (addSlide_000 text i st)\<lparr>slideshow_hidden := False\<rparr>)
             else (text, img, st)
         | None \<Rightarrow> (text, img, st)))"

fun generate_000_candidates :: "candidate list \<Rightarrow> locals \<Rightarrow> locals \<times> js_error option" where
  "generate_000_candidates [] s = (s, None)"
| "generate_000_candidates (c # cs) s =
     (case content c of
        None \<Rightarrow> (s, Some (TypeError ''candidate.content is undefined''))
      | Some ct \<Rightarrow>
          generate_000_candidates cs
            (fold generate_000_part (case parts ct of None \<Rightarrow> [] | Some ps \<Rightarrow> ps) s))"

fun generate_000_chunks :: "chunk list \<Rightarrow> locals \<Rightarrow> locals \<times> js_error option" where
  "generate_000_chunks [] s = (s, None)"
| "generate_000_chunks (ch # chs) s =
     (case candidates ch of
        None \<Rightarrow> (s, Some (TypeError ''chunk.candidates is not iterable''))
      | Some cs \<Rightarrow>
          (case generate_000_candidates cs s of
             (s', Some e) \<Rightarrow> (s', Some e)
           | (s', None) \<Rightarrow> generate_000_chunks chs s'))"

text \<open>
  \<open>chat\<close> is the global \<^verbatim>\<open>chat\<close>: \<open>None\<close> while it is \<^verbatim>\<open>null\<close>, otherwise the reply of
  its \<^verbatim>\<open>sendMessageStream\<close> to a message.
\<close>

definition generate_000 :: "(string \<Rightarrow> stream) option \<Rightarrow> string \<Rightarrow> page \<Rightarrow> page" where
  "generate_000 chat message st0 =
     (case chat of
        None \<Rightarrow> st0
      | Some sendMessageStream \<Rightarrow>
          if trim message = [] then st0
          else
            (let st = st0\<lparr>userInput_disabled := True, modelOutput := [], slideshow := [],
                          error_html := [], error_hidden := True\<rparr>;
                 st = st\<lparr>modelOutput := modelOutput st @ [message], userInput_value := []\<rparr>;
                 st = st\<lparr>requests := requests st @
                         [SendMessageStream (message @ additionalInstructions_000)]\<rparr>;
                 result = sendMessageStream (message @ additionalInstructions_000);
                 ((text, img, st), thrown) =
                    generate_000_chunks (chunks result) ([], None, st);
                 thrown = (case thrown of Some e \<Rightarrow> Some e | None \<Rightarrow> failure result);
                 st = (case thrown of
                         None \<Rightarrow> st
                       | Some e \<Rightarrow>
                           st\<lparr>error_html := ''Something went wrong: '' @ parseError_000 e,
                              error_hidden := False\<rparr>)
             in st\<lparr>userInput_disabled := False\<rparr>))"

section \<open>src/unnamed/part_001\<close>

definition imageStylePrompt :: string where
  "imageStylePrompt = ''Photorealistic, cinematic lighting, sharp focus, high detail, 8k resolution, shot on 35mm film, tasteful, artistic.''"

definition setStatus :: "string \<Rightarrow> bool \<Rightarrow> page \<Rightarrow> page" where
  "setStatus msg show st = st\<lparr>status_text := msg, status_hidden := \<not> show\<rparr>"

definition setError :: "string \<Rightarrow> bool \<Rightarrow> page \<Rightarrow> page" where
  "setError msg show st = st\<lparr>error_html := msg, error_hidden := \<not> show\<rparr>"

definition addSlide_001 :: "string \<Rightarrow> img \<Rightarrow> page \<Rightarrow> page" where
  "addSlide_001 text img st =
     st\<lparr>slideshow := slideshow st @ [Slide text img], slideshow_hidden := False\<rparr>"

text \<open>
  The interface \<^verbatim>\<open>ComicScript\<close>. The program tests \<^verbatim>\<open>script.panels\<close> for absence, so the
  list is optional in the model.
\<close>

datatype panel = Panel (panel_text: string)

record ComicScript =
  characterDescription :: string
  panels :: "panel list option"

subsection \<open>generateScript\<close>

definition scriptwriterPrompt :: "string \<Rightarrow> string" where
  "scriptwriterPrompt story = concat
    [nl,
     ''    You are an expert scriptwriter for a graphic novel. Your job is to take a user's story and prepare it for an artist by creating a structured JSON output.'', nl,
     ''    1.  **Create a Character Description:** Read the story and create a single, highly-detailed description of the main character (ethnicity, age, hair, eyes, build, features). This description MUST be used for every image to ensure consistency.'', nl,
     ''    2.  **Break Down Story:** Deconstruct the story into short, single-sentence panels for distinct visual moments.'', nl,
     ''    3.  **JSON Output:** You MUST output ONLY a single, raw JSON object. Do not include any other text, explanations, or markdown formatting like ```json. The JSON object must have keys '', dq, ''characterDescription'', dq, '' (string) and '', dq, ''panels'', dq, '' (array of objects with a '', dq, ''text'', dq, '' key).'', nl,
     nl,
     ''    USER STORY: '', dq,
     story,
     dq, nl,
     ''    '']"

text \<open>
  \<^verbatim>\<open>jsonText.replace(/^```json\s*/, '').replace(/```$/, '')\<close>. Neither expression has the
  \<^verbatim>\<open>m\<close> flag: the first matches at the start of the text only, the second at its very end
  only.
\<close>

definition cleanedJsonText :: "string \<Rightarrow> string" where
  "cleanedJsonText jsonText =
     (let s = (if prefix ''```json'' jsonText then dropWhile is_space (drop 7 jsonText)
               else jsonText)
      in if suffix ''```'' s then take (length s - 3) s else s)"

text \<open>
  \<open>JSON_parse\<close> is \<^verbatim>\<open>JSON.parse(...) as ComicScript\<close>: \<open>Inl e\<close> when it throws, \<open>Inr None\<close>
  when the value is \<^verbatim>\<open>null\<close> (or another value that \<^verbatim>\<open>!script\<close> rejects), and otherwise the
  value at the declared interface; the cast validates nothing, and a value without a
  \<^verbatim>\<open>panels\<close> property has \<open>panels = None\<close>. The values outside the interface are
  treated in the section after this one.
  \<open>textChat\<close> is the global \<^verbatim>\<open>textChat\<close>: \<open>None\<close> while it is \<^verbatim>\<open>null\<close>, otherwise the reply
  to a prompt: the text of the response, or the error thrown on the way to it.
  \<open>generateScript_try\<close> is the \<^verbatim>\<open>try\<close> block (lines 93 to 105): the parsed script, or the
  error that the \<^verbatim>\<open>catch\<close> block receives.
\<close>

definition generateScript_try ::
    "(string \<Rightarrow> js_error + ComicScript option) \<Rightarrow> (string \<Rightarrow> js_error + string) \<Rightarrow>
     string \<Rightarrow> js_error + ComicScript option" where
  "generateScript_try JSON_parse sendMessage story =
     (case sendMessage (scriptwriterPrompt story) of
        Inl e \<Rightarrow> Inl e
      | Inr jsonText \<Rightarrow>
          if jsonText = [] then Inl (Error ''Text model returned no response.'')
          else JSON_parse (cleanedJsonText jsonText))"

text \<open>The message of the \<^verbatim>\<open>catch\<close> block (line 108).\<close>

definition scriptwriting_failed :: "js_error \<Rightarrow> string" where
  "scriptwriting_failed e =
     ''<strong>Scriptwriting Failed:</strong> The AI failed to generate a valid story script. This can happen with complex stories. Please try simplifying your prompt. <br><br><em>Error: '' @
     error_toString e @ ''</em>''"

definition generateScript ::
    "(string \<Rightarrow> js_error + ComicScript option) \<Rightarrow> (string \<Rightarrow> js_error + string) option \<Rightarrow>
     string \<Rightarrow> page \<Rightarrow> ComicScript option \<times> page" where
  "generateScript JSON_parse textChat story st0 =
     (case textChat of
        None \<Rightarrow> (None, st0)
      | Some sendMessage \<Rightarrow>
          (let st = st0\<lparr>requests := requests st0 @ [SendMessage (scriptwriterPrompt story)]\<rparr>
           in (case generateScript_try JSON_parse sendMessage story of
                 Inr script \<Rightarrow> (script, st)
               | Inl e \<Rightarrow> (None, setError (scriptwriting_failed e) True st))))"

subsection \<open>generate\<close>

text \<open>The body of the innermost loop (lines 153 to 157).\<close>

definition generate_001_part :: "part \<Rightarrow> string \<times> img option \<Rightarrow> string \<times> img option" where
  "generate_001_part p = (\<lambda>(text, img).
     if text_of p \<noteq> [] then (text @ text_of p, img)
     else (case inlineData p of
             Some d \<Rightarrow> (text, Some (Img (''data:image/png;base64,'' @ d)))
           | None \<Rightarrow> (text, img)))"

text \<open>
  \<^verbatim>\<open>for await (const chunk of result)\<close> with
  \<^verbatim>\<open>for (const part of chunk.candidates[0].content?.parts ?? [])\<close>: a chunk without a first
  candidate throws.
\<close>

fun generate_001_chunks ::
    "chunk list \<Rightarrow> string \<times> img option \<Rightarrow> (string \<times> img option) \<times> js_error option" where
  "generate_001_chunks [] s = (s, None)"
| "generate_001_chunks (ch # chs) s =
     (case candidates ch of
        None \<Rightarrow> (s, Some (TypeError ''chunk.candidates is undefined''))
      | Some [] \<Rightarrow> (s, Some (TypeError ''chunk.candidates[0] is undefined''))
      | Some (c # _) \<Rightarrow>
          generate_001_chunks chs
            (fold generate_001_part
               (case content c of
                  None \<Rightarrow> []
                | Some ct \<Rightarrow> (case parts ct of None \<Rightarrow> [] | Some ps \<Rightarrow> ps)) s))"

text \<open>
  The \<^verbatim>\<open>try\<close> block of one panel, up to the decision of line 160: the image held when the
  stream ends, or the error that the \<^verbatim>\<open>catch\<close> block receives.
\<close>

definition generate_001_try :: "stream \<Rightarrow> js_error + img" where
  "generate_001_try result =
     (let ((text, img), thrown) = generate_001_chunks (chunks result) ([], None);
          thrown = (case thrown of Some e \<Rightarrow> Some e | None \<Rightarrow> failure result)
      in (case thrown of
            Some e \<Rightarrow> Inl e
          | None \<Rightarrow>
              (case img of
                 Some i \<Rightarrow> Inr i
               | None \<Rightarrow> Inl (Error ''Image model did not return an image for this panel.''))))"

text \<open>
  The loop over \<^verbatim>\<open>script.panels\<close>, from the panels still to do and the value of
  \<^verbatim>\<open>panelCount\<close> before them. \<open>sendMessageStream n prompt\<close> is the reply of the image chat
  to the request number \<open>n\<close> of the run (from 0).
\<close>

definition imagePrompt :: "string \<Rightarrow> panel \<Rightarrow> string" where
  "imagePrompt description panel =
     panel_text panel @ nl @ nl @ ''**Character:** '' @ description @ nl @ nl @
     ''**Style:** '' @ imageStylePrompt"

text \<open>The message of the \<^verbatim>\<open>catch\<close> block (line 167).\<close>

definition panel_failed :: "nat \<Rightarrow> panel \<Rightarrow> js_error \<Rightarrow> string" where
  "panel_failed panelCount panel e =
     ''<strong>Panel '' @ string_of_nat panelCount @
     '' Failed:</strong> Could not generate an image for the text: '' @ dq @
     panel_text panel @ dq @ '' <br><br><em>Error: '' @ error_toString e @ ''</em>''"

fun generate_001_panels ::
    "(nat \<Rightarrow> string \<Rightarrow> stream) \<Rightarrow> string \<Rightarrow> nat \<Rightarrow> panel list \<Rightarrow> nat \<Rightarrow> page \<Rightarrow> page" where
  "generate_001_panels sendMessageStream description panels_length [] panelCount0 st = st"
| "generate_001_panels sendMessageStream description panels_length (panel # rest) panelCount0 st0 =
     (let panelCount = panelCount0 + 1;
          st = setStatus (''Generating panel '' @ string_of_nat panelCount @ '' of '' @
                          string_of_nat panels_length @ ''...'') True st0;
          st = st\<lparr>requests := requests st @
                  [SendMessageStream (imagePrompt description panel)]\<rparr>
      in (case generate_001_try (sendMessageStream panelCount0 (imagePrompt description panel)) of
            Inr img \<Rightarrow>
              generate_001_panels sendMessageStream description panels_length rest panelCount
                (addSlide_001 (panel_text panel) img st)
          | Inl e \<Rightarrow> setError (panel_failed panelCount panel e) True st))"

definition generate_001 ::
    "(string \<Rightarrow> js_error + ComicScript option) \<Rightarrow> (string \<Rightarrow> js_error + string) option \<Rightarrow>
     (nat \<Rightarrow> string \<Rightarrow> stream) option \<Rightarrow> string \<Rightarrow> page \<Rightarrow> page" where
  "generate_001 JSON_parse textChat imageChat story st0 =
     (case imageChat of
        None \<Rightarrow> st0
      | Some sendMessageStream \<Rightarrow>
          if textChat = None \<or> trim story = [] then st0
          else
            (let st = st0\<lparr>userInput_disabled := True, modelOutput := [], slideshow := [],
                          slideshow_hidden := True\<rparr>;
                 st = setError [] False st;
                 st = setStatus ''Writing the script...'' True st;
                 (script, st) = generateScript JSON_parse textChat story st
             in (case script of
                   None \<Rightarrow> (setStatus [] False st)\<lparr>userInput_disabled := False\<rparr>
                 | Some script \<Rightarrow>
                     (case panels script of
                        None \<Rightarrow> (setStatus [] False st)\<lparr>userInput_disabled := False\<rparr>
                      | Some [] \<Rightarrow> (setStatus [] False st)\<lparr>userInput_disabled := False\<rparr>
                      | Some ps \<Rightarrow>
                          (let st = st\<lparr>modelOutput := modelOutput st @ [story],
                                       userInput_value := []\<rparr>;
                               st = generate_001_panels sendMessageStream
                                      (characterDescription script) (length ps) ps 0 st
                           in (setStatus [] False st)\<lparr>userInput_disabled := False\<rparr>)))))"

section \<open>\<^verbatim>\<open>src/unnamed/part_001\<close> on every parsed value\<close>

text \<open>
  The cast \<^verbatim>\<open>JSON.parse(cleanedJsonText) as ComicScript\<close> of line 105 validates nothing, so
  \<^verbatim>\<open>generate\<close> can receive any JSON value as its script. This section embeds
  \<^verbatim>\<open>generateScript\<close> and \<^verbatim>\<open>generate\<close> once more, on every such value, with the exceptions that
  the loop throws outside its \<^verbatim>\<open>try\<close> block; on a value of the declared interface the two
  embeddings agree (lemma \<open>generate_001_any_typed\<close> below).

  A JSON value as \<^verbatim>\<open>JSON.parse\<close> returns it. A number is represented by the text that
  \<^verbatim>\<open>Number.prototype.toString\<close> gives for it (so zero, of either sign, is \<^verbatim>\<open>0\<close>); an object by its
  own properties in the order of the text, a later one overriding an earlier one of the
  same key. \<open>None\<close> of \<open>json option\<close> is \<^verbatim>\<open>undefined\<close>.
\<close>

datatype json =
  JNull | JBool bool | JNum string | JStr string | JArr "json list"
| JObj "(string \<times> json) list"

text \<open>The values that a condition accepts.\<close>

fun truthy :: "json option \<Rightarrow> bool" where
  "truthy None = False"
| "truthy (Some JNull) = False"
| "truthy (Some (JBool b)) = b"
| "truthy (Some (JNum n)) = (n \<noteq> ''0'')"
| "truthy (Some (JStr s)) = (s \<noteq> [])"
| "truthy (Some (JArr xs)) = True"
| "truthy (Some (JObj kvs)) = True"

text \<open>
  \<^verbatim>\<open>v.k\<close> for the property names that the program reads (\<^verbatim>\<open>panels\<close>, \<^verbatim>\<open>length\<close>, \<^verbatim>\<open>text\<close>,
  \<^verbatim>\<open>characterDescription\<close>): none of them is inherited from a prototype, and \<^verbatim>\<open>length\<close> is an
  own property of arrays and strings. Reading a property of \<^verbatim>\<open>null\<close> throws.
\<close>

fun getProperty :: "json \<Rightarrow> string \<Rightarrow> js_error + json option" where
  "getProperty JNull k = Inl (TypeError ''Cannot read properties of null'')"
| "getProperty (JBool b) k = Inr None"
| "getProperty (JNum n) k = Inr None"
| "getProperty (JStr s) k =
     Inr (if k = ''length'' then Some (JNum (string_of_nat (length s))) else None)"
| "getProperty (JArr xs) k =
     Inr (if k = ''length'' then Some (JNum (string_of_nat (length xs))) else None)"
| "getProperty (JObj kvs) k = Inr (map_of (rev kvs) k)"

text \<open>
  The conversion to a string of a template literal. An array joins the strings of its
  elements with commas, \<^verbatim>\<open>null\<close> giving the empty string. An object gives
  \<^verbatim>\<open>[object Object]\<close>, unless it has an own property \<^verbatim>\<open>toString\<close>: a JSON value is not
  callable, and then the conversion throws.
\<close>

fun ToString :: "json \<Rightarrow> js_error + string"
  and join :: "json list \<Rightarrow> js_error + string" where
  "ToString JNull = Inr ''null''"
| "ToString (JBool b) = Inr (if b then ''true'' else ''false'')"
| "ToString (JNum n) = Inr n"
| "ToString (JStr s) = Inr s"
| "ToString (JArr xs) = join xs"
| "ToString (JObj kvs) =
     (if ''toString'' \<in> set (map fst kvs)
      then Inl (TypeError ''Cannot convert object to primitive value'')
      else Inr ''[object Object]'')"
| "join [] = Inr []"
| "join (x # xs) =
     (case (case x of JNull \<Rightarrow> Inr [] | _ \<Rightarrow> ToString x) of
        Inl e \<Rightarrow> Inl e
      | Inr s \<Rightarrow>
          (case join xs of
             Inl e \<Rightarrow> Inl e
           | Inr r \<Rightarrow> Inr (if xs = [] then s else s @ '','' @ r)))"

definition template_any :: "json option \<Rightarrow> js_error + string" where
  "template_any v = (case v of None \<Rightarrow> Inr ''undefined'' | Some x \<Rightarrow> ToString x)"

text \<open>
  The values that \<^verbatim>\<open>for (const panel of v)\<close> runs through: the elements of an array, the
  characters of a string; any other value that the guard of line 126 lets through is not
  iterable.
\<close>

fun iterate :: "json \<Rightarrow> js_error + json list" where
  "iterate (JArr xs) = Inr xs"
| "iterate (JStr s) = Inr (map (\<lambda>c. JStr [c]) s)"
| "iterate v = Inl (TypeError ''script.panels is not iterable'')"

text \<open>
  \<^verbatim>\<open>marked.parse\<close> of the library \<^verbatim>\<open>marked\<close>, which throws on an argument that is not a
  string; for a string, the slide records the text.
\<close>

fun marked_parse :: "json option \<Rightarrow> js_error + string" where
  "marked_parse (Some (JStr s)) = Inr s"
| "marked_parse v = Inl (Error ''marked(): input parameter is not a string'')"

definition generateScript_any_try ::
    "(string \<Rightarrow> js_error + json) \<Rightarrow> (string \<Rightarrow> js_error + string) \<Rightarrow> string \<Rightarrow>
     js_error + json" where
  "generateScript_any_try JSON_parse sendMessage story =
     (case sendMessage (scriptwriterPrompt story) of
        Inl e \<Rightarrow> Inl e
      | Inr jsonText \<Rightarrow>
          if jsonText = [] then Inl (Error ''Text model returned no response.'')
          else JSON_parse (cleanedJsonText jsonText))"

definition generateScript_any ::
    "(string \<Rightarrow> js_error + json) \<Rightarrow> (string \<Rightarrow> js_error + string) option \<Rightarrow>
     string \<Rightarrow> page \<Rightarrow> json \<times> page" where
  "generateScript_any JSON_parse textChat story st0 =
     (case textChat of
        None \<Rightarrow> (JNull, st0)
      | Some sendMessage \<Rightarrow>
          (let st = st0\<lparr>requests := requests st0 @ [SendMessage (scriptwriterPrompt story)]\<rparr>
           in (case generateScript_any_try JSON_parse sendMessage story of
                 Inr script \<Rightarrow> (script, st)
               | Inl e \<Rightarrow> (JNull, setError (scriptwriting_failed e) True st))))"

text \<open>
  The loop over the panels (lines 140 to 170) with the page it leaves and the exception that
  leaves it, if any. The status line and the prompt are made outside the \<^verbatim>\<open>try\<close> block:
  \<^verbatim>\<open>panel.text\<close> of a \<^verbatim>\<open>null\<close> panel and the conversions of the template literals throw out
  of the loop. \<^verbatim>\<open>addSlide\<close> is called inside the block, so what \<^verbatim>\<open>marked.parse\<close> throws is
  caught.
\<close>

fun generate_001_any_panels ::
    "(nat \<Rightarrow> string \<Rightarrow> stream) \<Rightarrow> json \<Rightarrow> json \<Rightarrow> json list \<Rightarrow> nat \<Rightarrow> page \<Rightarrow>
     page \<times> js_error option" where
  "generate_001_any_panels sendMessageStream script script_panels [] panelCount0 st = (st, None)"
| "generate_001_any_panels sendMessageStream script script_panels (panel # rest) panelCount0 st0 =
     (case getProperty script_panels ''length'' of
        Inl e \<Rightarrow> (st0, Some e)
      | Inr len \<Rightarrow>
     (case template_any len of
        Inl e \<Rightarrow> (st0, Some e)
      | Inr len_text \<Rightarrow>
     (case getProperty panel ''text'' of
        Inl e \<Rightarrow>
          (setStatus (''Generating panel '' @ string_of_nat (panelCount0 + 1) @ '' of '' @
                      len_text @ ''...'') True st0, Some e)
      | Inr text \<Rightarrow>
     (case template_any text of
        Inl e \<Rightarrow>
          (setStatus (''Generating panel '' @ string_of_nat (panelCount0 + 1) @ '' of '' @
                      len_text @ ''...'') True st0, Some e)
      | Inr t \<Rightarrow>
     (case getProperty script ''characterDescription'' of
        Inl e \<Rightarrow>
          (setStatus (''Generating panel '' @ string_of_nat (panelCount0 + 1) @ '' of '' @
                      len_text @ ''...'') True st0, Some e)
      | Inr description \<Rightarrow>
     (case template_any description of
        Inl e \<Rightarrow>
          (setStatus (''Generating panel '' @ string_of_nat (panelCount0 + 1) @ '' of '' @
                      len_text @ ''...'') True st0, Some e)
      | Inr d \<Rightarrow>
          (let panelCount = panelCount0 + 1;
               st = setStatus (''Generating panel '' @ string_of_nat panelCount @ '' of '' @
                               len_text @ ''...'') True st0;
               st = st\<lparr>requests := requests st @
                       [SendMessageStream (imagePrompt d (Panel t))]\<rparr>
           in (case (case generate_001_try (sendMessageStream panelCount0 (imagePrompt d (Panel t))) of
                       Inl e \<Rightarrow> Inl e
                     | Inr img \<Rightarrow>
                         (case marked_parse text of
                            Inl e \<Rightarrow> Inl e
                          | Inr caption \<Rightarrow> Inr (caption, img))) of
                 Inr (caption, img) \<Rightarrow>
                   generate_001_any_panels sendMessageStream script script_panels rest panelCount
                     (addSlide_001 caption img st)
               | Inl e \<Rightarrow> (setError (panel_failed panelCount (Panel t) e) True st, None)))))))))"

text \<open>
  \<^verbatim>\<open>generate\<close>, with the exception that ends the run when one is thrown outside the
  \<^verbatim>\<open>try\<close> blocks: the lines 172 to 174 are then not reached.
\<close>

definition generate_001_any ::
    "(string \<Rightarrow> js_error + json) \<Rightarrow> (string \<Rightarrow> js_error + string) option \<Rightarrow>
     (nat \<Rightarrow> string \<Rightarrow> stream) option \<Rightarrow> string \<Rightarrow> page \<Rightarrow> page \<times> js_error option" where
  "generate_001_any JSON_parse textChat imageChat story st0 =
     (case imageChat of
        None \<Rightarrow> (st0, None)
      | Some sendMessageStream \<Rightarrow>
          if textChat = None \<or> trim story = [] then (st0, None)
          else
            (let st = st0\<lparr>userInput_disabled := True, modelOutput := [], slideshow := [],
                          slideshow_hidden := True\<rparr>;
                 st = setError [] False st;
                 st = setStatus ''Writing the script...'' True st;
                 (script, st) = generateScript_any JSON_parse textChat story st;
                 quiet = ((setStatus [] False st)\<lparr>userInput_disabled := False\<rparr>, None)
             in if \<not> truthy (Some script) then quiet
                else
                  (case getProperty script ''panels'' of
                     Inl e \<Rightarrow> (st, Some e)
                   | Inr None \<Rightarrow> quiet
                   | Inr (Some script_panels) \<Rightarrow>
                       if \<not> truthy (Some script_panels) then quiet
                       else
                         (case getProperty script_panels ''length'' of
                            Inl e \<Rightarrow> (st, Some e)
                          | Inr len \<Rightarrow>
                              if len = Some (JNum ''0'') then quiet
                              else
                                (let st = st\<lparr>modelOutput := modelOutput st @ [story],
                                             userInput_value := []\<rparr>
                                 in (case iterate script_panels of
                                       Inl e \<Rightarrow> (st, Some e)
                                     | Inr items \<Rightarrow>
                                         (case generate_001_any_panels sendMessageStream script
                                                 script_panels items 0 st of
                                            (st, Some e) \<Rightarrow> (st, Some e)
                                          | (st, None) \<Rightarrow>
                                              ((setStatus [] False st)
                                                 \<lparr>userInput_disabled := False\<rparr>, None))))))))"

text \<open>A panel of the declared interface: an object whose \<^verbatim>\<open>text\<close> is a string.\<close>

fun as_panel :: "json \<Rightarrow> panel option" where
  "as_panel (JObj kvs) =
     (case map_of (rev kvs) ''text'' of Some (JStr t) \<Rightarrow> Some (Panel t) | _ \<Rightarrow> None)"
| "as_panel v = None"

section \<open>The streams as sequences of parts\<close>

text \<open>
  The parts that the nested loops of \<^verbatim>\<open>src/index.tsx\<close> and \<^verbatim>\<open>src/unnamed/part_000\<close> reach, in
  the order they reach them, and the error that stops them, if any: all candidates of a
  chunk are read.
\<close>

fun parts_of_candidates :: "candidate list \<Rightarrow> part list \<times> js_error option" where
  "parts_of_candidates [] = ([], None)"
| "parts_of_candidates (c # cs) =
     (case content c of
        None \<Rightarrow> ([], Some (TypeError ''candidate.content is undefined''))
      | Some ct \<Rightarrow>
          (case parts_of_candidates cs of
             (ps, e) \<Rightarrow> ((case parts ct of None \<Rightarrow> [] | Some qs \<Rightarrow> qs) @ ps, e)))"

fun parts_of_chunks :: "chunk list \<Rightarrow> part list \<times> js_error option" where
  "parts_of_chunks [] = ([], None)"
| "parts_of_chunks (ch # chs) =
     (case candidates ch of
        None \<Rightarrow> ([], Some (TypeError ''chunk.candidates is not iterable''))
      | Some cs \<Rightarrow>
          (case parts_of_candidates cs of
             (ps, Some e) \<Rightarrow> (ps, Some e)
           | (ps, None) \<Rightarrow> (case parts_of_chunks chs of (qs, e) \<Rightarrow> (ps @ qs, e))))"

definition stream_parts :: "stream \<Rightarrow> part list" where
  "stream_parts result = fst (parts_of_chunks (chunks result))"

text \<open>The error that ends the \<^verbatim>\<open>try\<close> block: of a chunk, or of the stream itself.\<close>

definition stream_error :: "stream \<Rightarrow> js_error option" where
  "stream_error result =
     (case snd (parts_of_chunks (chunks result)) of
        Some e \<Rightarrow> Some e
      | None \<Rightarrow> failure result)"

text \<open>The same for \<^verbatim>\<open>src/unnamed/part_001\<close>, which reads the first candidate of a chunk only.\<close>

fun parts_of_chunks_001 :: "chunk list \<Rightarrow> part list \<times> js_error option" where
  "parts_of_chunks_001 [] = ([], None)"
| "parts_of_chunks_001 (ch # chs) =
     (case candidates ch of
        None \<Rightarrow> ([], Some (TypeError ''chunk.candidates is undefined''))
      | Some [] \<Rightarrow> ([], Some (TypeError ''chunk.candidates[0] is undefined''))
      | Some (c # _) \<Rightarrow>
          (case parts_of_chunks_001 chs of
             (qs, e) \<Rightarrow>
               ((case content c of
                   None \<Rightarrow> []
                 | Some ct \<Rightarrow> (case parts ct of None \<Rightarrow> [] | Some ps \<Rightarrow> ps)) @ qs, e)))"

definition stream_parts_001 :: "stream \<Rightarrow> part list" where
  "stream_parts_001 result = fst (parts_of_chunks_001 (chunks result))"

definition stream_error_001 :: "stream \<Rightarrow> js_error option" where
  "stream_error_001 result =
     (case snd (parts_of_chunks_001 (chunks result)) of
        Some e \<Rightarrow> Some e
      | None \<Rightarrow> failure result)"

section \<open>The pairing of text and image, as the specification words it\<close>

text \<open>
  The image fragment of a part: its inline data as an image element. A part that carries a
  text is a text fragment, whatever else it carries.
\<close>

definition image_of :: "part \<Rightarrow> img option" where
  "image_of p =
     (if text_of p \<noteq> [] then None
      else map_option (\<lambda>d. Img (''data:image/png;base64,'' @ d)) (inlineData p))"

text \<open>The concatenation of the text fragments of some parts, and their most recent image.\<close>

definition spec_text :: "part list \<Rightarrow> string" where
  "spec_text ps = concat (map text_of ps)"

definition spec_image :: "part list \<Rightarrow> img option" where
  "spec_image ps =
     (if List.map_filter image_of ps = [] then None
      else Some (last (List.map_filter image_of ps)))"

text \<open>
  The slide assembler of the specification, over the parts themselves: \<open>pending\<close> are the
  parts since the last emitted slide. After each part, when the pending parts hold a text
  and an image, one slide is emitted from both and nothing is pending any more.
  \<open>spec_slides\<close> are the slides emitted, \<open>spec_pending\<close> the parts pending at the end.
\<close>

fun spec_slides :: "part list \<Rightarrow> part list \<Rightarrow> slide list" where
  "spec_slides pending [] = []"
| "spec_slides pending (p # ps) =
     (case spec_image (pending @ [p]) of
        Some i \<Rightarrow>
          if spec_text (pending @ [p]) \<noteq> []
          then Slide (spec_text (pending @ [p])) i # spec_slides [] ps
          else spec_slides (pending @ [p]) ps
      | None \<Rightarrow> spec_slides (pending @ [p]) ps)"

fun spec_pending :: "part list \<Rightarrow> part list \<Rightarrow> part list" where
  "spec_pending pending [] = pending"
| "spec_pending pending (p # ps) =
     (case spec_image (pending @ [p]) of
        Some i \<Rightarrow>
          if spec_text (pending @ [p]) \<noteq> []
          then spec_pending [] ps
          else spec_pending (pending @ [p]) ps
      | None \<Rightarrow> spec_pending (pending @ [p]) ps)"

text \<open>
  The page of \<^verbatim>\<open>src/unnamed/part_001\<close> when the loop over the panels starts (lines 117 to
  137, with the request of \<^verbatim>\<open>generateScript\<close>).
\<close>

definition page_before_panels :: "string \<Rightarrow> page \<Rightarrow> page" where
  "page_before_panels story st0 =
     (let st = st0\<lparr>userInput_disabled := True, modelOutput := [], slideshow := [],
                   slideshow_hidden := True\<rparr>;
          st = setError [] False st;
          st = setStatus ''Writing the script...'' True st;
          st = st\<lparr>requests := requests st @ [SendMessage (scriptwriterPrompt story)]\<rparr>
      in st\<lparr>modelOutput := modelOutput st @ [story], userInput_value := []\<rparr>)"

section \<open>Example inputs\<close>

definition example_page :: page where
  "example_page =
     \<lparr>userInput_disabled = False, userInput_value = ''a cat'', modelOutput = [],
      slideshow = [], slideshow_hidden = True, status_text = [], status_hidden = True,
      error_html = [], error_hidden = True, requests = []\<rparr>"

definition text_part :: "string \<Rightarrow> part" where
  "text_part t = Part (Some t) None"

definition image_part :: "string \<Rightarrow> part" where
  "image_part d = Part None (Some d)"

text \<open>A stream of one chunk with one candidate, and a stream that throws at once.\<close>

definition single_chunk :: "part list \<Rightarrow> stream" where
  "single_chunk ps =
     \<lparr>chunks = [Chunk (Some [Candidate (Some (Content (Some ps)))])], failure = None\<rparr>"

definition failing_stream :: "js_error \<Rightarrow> stream" where
  "failing_stream e = \<lparr>chunks = [], failure = Some e\<rparr>"

text \<open>A chat that answers every message with the same stream, or the same text.\<close>

definition reply_with :: "stream \<Rightarrow> string \<Rightarrow> stream" where
  "reply_with result message = result"

definition reply_text :: "string \<Rightarrow> string \<Rightarrow> js_error + string" where
  "reply_text t prompt = Inr t"

text \<open>
  An image chat whose second reply (request number 1) carries a text and no image; every
  other reply carries a text and an image.
\<close>

definition second_reply_without_image :: "nat \<Rightarrow> string \<Rightarrow> stream" where
  "second_reply_without_image n prompt =
     (if n = 1 then single_chunk [text_part ''Sorry, no picture.'']
      else single_chunk [text_part ''Here it is.'', image_part ''iVBORw0KGgo=''])"

text \<open>
  \<^verbatim>\<open>JSON.parse\<close> on the texts of the examples: two error payloads of the service, one with
  a \<^verbatim>\<open>message\<close> and one without, and three scripts.
\<close>

definition payload_with_message :: string where
  "payload_with_message =
     ''{'' @ dq @ ''code'' @ dq @ '':429,'' @ dq @ ''message'' @ dq @ '':'' @ dq @
     ''quota'' @ dq @ ''}''"

definition payload_without_message :: string where
  "payload_without_message = ''{'' @ dq @ ''code'' @ dq @ '':429}''"

definition example_payload_parse :: "string \<Rightarrow> js_error + payload option" where
  "example_payload_parse s =
     (if s = payload_without_message then Inr (Some (Payload None))
      else if s = payload_with_message then Inr (Some (Payload (Some ''quota'')))
      else Inl (SyntaxError ''Unexpected token''))"


definition error_without_message :: string where
  "error_without_message = ''{'' @ dq @ ''error'' @ dq @ '':'' @ payload_without_message @ ''}''"

definition json_three_panels :: string where
  "json_three_panels =
     ''{'' @ dq @ ''characterDescription'' @ dq @ '':'' @ dq @ ''a grey cat'' @ dq @ '','' @
     dq @ ''panels'' @ dq @ '':[{'' @ dq @ ''text'' @ dq @ '':'' @ dq @ ''one'' @ dq @ ''},{'' @
     dq @ ''text'' @ dq @ '':'' @ dq @ ''two'' @ dq @ ''},{'' @
     dq @ ''text'' @ dq @ '':'' @ dq @ ''three'' @ dq @ ''}]}''"

definition script_three_panels :: ComicScript where
  "script_three_panels =
     \<lparr>characterDescription = ''a grey cat'',
      panels = Some [Panel ''one'', Panel ''two'', Panel ''three'']\<rparr>"

definition json_empty_panels :: string where
  "json_empty_panels =
     ''{'' @ dq @ ''characterDescription'' @ dq @ '':'' @ dq @ ''a grey cat'' @ dq @ '','' @
     dq @ ''panels'' @ dq @ '':[]}''"

definition script_empty_panels :: ComicScript where
  "script_empty_panels = \<lparr>characterDescription = ''a grey cat'', panels = Some []\<rparr>"

definition example_script_parse :: "string \<Rightarrow> js_error + ComicScript option" where
  "example_script_parse s =
     (if trim s = json_three_panels then Inr (Some script_three_panels)
      else if trim s = json_empty_panels then Inr (Some script_empty_panels)
      else if trim s = ''null'' then Inr None
      else Inl (SyntaxError ''Unexpected token''))"

text \<open>
  \<^verbatim>\<open>JSON.parse\<close> on the script of three panels, as a value, and on a script whose one panel
  is \<^verbatim>\<open>null\<close>.
\<close>

definition value_three_panels :: json where
  "value_three_panels =
     JObj [(''characterDescription'', JStr ''a grey cat''),
           (''panels'', JArr [JObj [(''text'', JStr ''one'')], JObj [(''text'', JStr ''two'')],
                             JObj [(''text'', JStr ''three'')]])]"

definition json_null_panel :: string where
  "json_null_panel = ''{'' @ dq @ ''panels'' @ dq @ '':[null]}''"

definition value_null_panel :: json where
  "value_null_panel = JObj [(''panels'', JArr [JNull])]"

definition example_any_parse :: "string \<Rightarrow> js_error + json" where
  "example_any_parse s =
     (if trim s = json_three_panels then Inr value_three_panels
      else if trim s = json_null_panel then Inr value_null_panel
      else if trim s = ''null'' then Inr JNull
      else Inl (SyntaxError ''Unexpected token''))"

section \<open>The loops, part by part\<close>

lemma spec_text_Nil: "spec_text [] = []"
  by (simp add: spec_text_def)

lemma spec_image_Nil: "spec_image [] = None"
  by (simp add: spec_image_def List.map_filter_def)

lemma spec_text_snoc: "spec_text (ps @ [p]) = spec_text ps @ text_of p"
  by (simp add: spec_text_def)

lemma spec_image_snoc:
  "spec_image (ps @ [p]) = (case image_of p of Some i \<Rightarrow> Some i | None \<Rightarrow> spec_image ps)"
  by (cases "image_of p") (simp_all add: spec_image_def List.map_filter_def)

text \<open>One run of the loop body, on any values of the local variables.\<close>

lemma index_part_any:
  "generate_index_part p (t, held, st) =
     (case (case image_of p of Some i \<Rightarrow> Some i | None \<Rightarrow> held) of
        Some i \<Rightarrow>
          if t @ text_of p \<noteq> []
          then ([], None, st\<lparr>slideshow := slideshow st @ [Slide (t @ text_of p) i],
                             slideshow_hidden := False\<rparr>)
          else (t @ text_of p, Some i, st)
      | None \<Rightarrow> (t @ text_of p, None, st))"
  by (auto simp: generate_index_part_def image_of_def addSlide_index_def split: option.splits)

lemma index_part_step:
  "generate_index_part p (spec_text q, spec_image q, st) =
     (case spec_image (q @ [p]) of
        Some i \<Rightarrow>
          if spec_text (q @ [p]) \<noteq> []
          then ([], None, st\<lparr>slideshow := slideshow st @ [Slide (spec_text (q @ [p])) i],
                             slideshow_hidden := False\<rparr>)
          else (spec_text (q @ [p]), spec_image (q @ [p]), st)
      | None \<Rightarrow> (spec_text (q @ [p]), spec_image (q @ [p]), st))"
  by (simp add: index_part_any spec_text_snoc spec_image_snoc split: option.splits)

text \<open>
  The refinement: the two local variables of the program are the text and the image of
  the pending parts of the specification, and the slides appended are its slides.
\<close>

lemma fold_index_part:
  "fold generate_index_part ps (spec_text q, spec_image q, st) =
     (spec_text (spec_pending q ps), spec_image (spec_pending q ps),
      st\<lparr>slideshow := slideshow st @ spec_slides q ps,
         slideshow_hidden := slideshow_hidden st \<and> spec_slides q ps = []\<rparr>)"
proof (induction ps arbitrary: q st)
  case Nil
  then show ?case by simp
next
  case (Cons p ps)
  show ?case
  proof (cases "spec_image (q @ [p])")
    case None
    then show ?thesis
      using Cons.IH [of "q @ [p]" st] by (simp add: index_part_step)
  next
    case (Some i)
    show ?thesis
    proof (cases "spec_text (q @ [p]) = []")
      case True
      then show ?thesis
        using Some Cons.IH [of "q @ [p]" st] by (simp add: index_part_step)
    next
      case False
      then show ?thesis
        using Some
          Cons.IH [of "[]" "st\<lparr>slideshow := slideshow st @ [Slide (spec_text (q @ [p])) i],
                                slideshow_hidden := False\<rparr>"]
        by (simp add: index_part_step spec_text_Nil spec_image_Nil)
    qed
  qed
qed

text \<open>After every part, a text and an image are never pending together.\<close>

lemma spec_pending_not_ready:
  "spec_text q = [] \<or> spec_image q = None \<Longrightarrow>
   spec_text (spec_pending q ps) = [] \<or> spec_image (spec_pending q ps) = None"
proof (induction ps arbitrary: q)
  case Nil
  then show ?case by simp
next
  case (Cons p ps)
  show ?case
  proof (cases "spec_image (q @ [p]) \<noteq> None \<and> spec_text (q @ [p]) \<noteq> []")
    case True
    then show ?thesis
      using Cons.IH [of "[]"] by (auto simp: spec_text_Nil)
  next
    case False
    then have "spec_text (q @ [p]) = [] \<or> spec_image (q @ [p]) = None"
      by blast
    from Cons.IH [OF this] False show ?thesis
      by (auto split: option.splits)
  qed
qed

lemma index_candidates:
  "generate_index_candidates cs s =
     (fold generate_index_part (fst (parts_of_candidates cs)) s, snd (parts_of_candidates cs))"
  by (induction cs arbitrary: s) (auto split: option.splits prod.splits)

lemma index_chunks:
  "generate_index_chunks chs s =
     (fold generate_index_part (fst (parts_of_chunks chs)) s, snd (parts_of_chunks chs))"
  by (induction chs arbitrary: s) (auto simp: index_candidates split: option.splits prod.splits)

text \<open>The loops of \<^verbatim>\<open>src/unnamed/part_000\<close> are those of \<^verbatim>\<open>src/index.tsx\<close>.\<close>

lemma addSlide_000_eq: "addSlide_000 = addSlide_index"
  by (intro ext) (simp add: addSlide_000_def addSlide_index_def)

lemma part_000_eq: "generate_000_part = generate_index_part"
  unfolding generate_000_part_def generate_index_part_def addSlide_000_eq by (rule refl)

lemma candidates_000_eq: "generate_000_candidates cs s = generate_index_candidates cs s"
  by (induction cs arbitrary: s) (auto simp: part_000_eq split: option.splits)

lemma chunks_000_eq: "generate_000_chunks chs s = generate_index_chunks chs s"
  by (induction chs arbitrary: s) (auto simp: candidates_000_eq split: option.splits prod.splits)

lemma index_chunks_run:
  "generate_index_chunks chs ([], None, st) =
     ((spec_text (spec_pending [] (fst (parts_of_chunks chs))),
       spec_image (spec_pending [] (fst (parts_of_chunks chs))),
       st\<lparr>slideshow := slideshow st @ spec_slides [] (fst (parts_of_chunks chs)),
          slideshow_hidden :=
            slideshow_hidden st \<and> spec_slides [] (fst (parts_of_chunks chs)) = []\<rparr>),
      snd (parts_of_chunks chs))"
  using fold_index_part [of "fst (parts_of_chunks chs)" "[]" st]
  by (simp add: index_chunks spec_text_Nil spec_image_Nil)

lemma generate_index_slideshow:
  "slideshow (generate_index JSON_parse chat message st0) =
     spec_slides [] (stream_parts (chat (message @ additionalInstructions_index))) @
     (case stream_error (chat (message @ additionalInstructions_index)) of
        Some e \<Rightarrow> []
      | None \<Rightarrow>
          (case spec_image
                  (spec_pending [] (stream_parts (chat (message @ additionalInstructions_index)))) of
             Some i \<Rightarrow> [Slide [] i]
           | None \<Rightarrow> []))"
proof -
  let ?r = "chat (message @ additionalInstructions_index)"
  have "spec_text (spec_pending [] (stream_parts ?r)) = [] \<or>
        spec_image (spec_pending [] (stream_parts ?r)) = None"
    by (rule spec_pending_not_ready) (simp add: spec_text_Nil)
  then show ?thesis
    by (auto simp: generate_index_def index_chunks_run stream_parts_def stream_error_def Let_def
        addSlide_index_def split: option.splits)
qed

lemma generate_000_slideshow:
  "slideshow (generate_000 chat message st0) =
     (case chat of
        None \<Rightarrow> slideshow st0
      | Some sendMessageStream \<Rightarrow>
          if trim message = [] then slideshow st0
          else spec_slides [] (stream_parts (sendMessageStream (message @ additionalInstructions_000))))"
  by (auto simp: generate_000_def chunks_000_eq index_chunks_run stream_parts_def Let_def
      split: option.splits)

lemma part_001_step:
  "generate_001_part p (t, held) =
     (t @ text_of p, case image_of p of Some i \<Rightarrow> Some i | None \<Rightarrow> held)"
  by (simp add: generate_001_part_def image_of_def split: option.splits)

lemma fold_001_part:
  "fold generate_001_part ps (t, held) =
     (t @ spec_text ps, case spec_image ps of Some i \<Rightarrow> Some i | None \<Rightarrow> held)"
proof (induction ps arbitrary: t held rule: rev_induct)
  case Nil
  then show ?case by (simp add: spec_text_Nil spec_image_Nil)
next
  case (snoc p ps)
  then show ?case
    by (simp add: part_001_step spec_text_snoc spec_image_snoc split: option.splits)
qed

lemma chunks_001:
  "generate_001_chunks chs s =
     (fold generate_001_part (fst (parts_of_chunks_001 chs)) s, snd (parts_of_chunks_001 chs))"
  by (induction chs arbitrary: s) (auto split: option.splits list.splits prod.splits)

lemma try_001:
  "generate_001_try result =
     (case stream_error_001 result of
        Some e \<Rightarrow> Inl e
      | None \<Rightarrow>
          (case spec_image (stream_parts_001 result) of
             Some i \<Rightarrow> Inr i
           | None \<Rightarrow> Inl (Error ''Image model did not return an image for this panel.'')))"
  by (simp add: generate_001_try_def chunks_001 fold_001_part stream_error_001_def
      stream_parts_001_def split: option.splits)

section \<open>The runs of \<^verbatim>\<open>generate\<close>\<close>

lemma trim_empty_iff: "trim s = [] \<longleftrightarrow> (\<forall>c\<in>set s. is_space c)"
proof
  assume "trim s = []"
  then have all: "\<forall>c\<in>set (dropWhile is_space s). is_space c"
    by (simp add: trim_def dropWhile_eq_Nil_conv)
  have "dropWhile is_space s = []"
  proof (rule ccontr)
    assume ne: "dropWhile is_space s \<noteq> []"
    then have "\<not> is_space (hd (dropWhile is_space s))"
      by (rule hd_dropWhile)
    moreover from ne have "hd (dropWhile is_space s) \<in> set (dropWhile is_space s)"
      by simp
    ultimately show False
      using all by blast
  qed
  then show "\<forall>c\<in>set s. is_space c"
    by (simp add: dropWhile_eq_Nil_conv)
next
  assume "\<forall>c\<in>set s. is_space c"
  then have "dropWhile is_space s = []"
    by (simp add: dropWhile_eq_Nil_conv)
  then show "trim s = []"
    by (auto simp: trim_def dest: set_dropWhileD)
qed





lemma generate_001_enabled:
  "trim story \<noteq> [] \<Longrightarrow>
   \<not> userInput_disabled (generate_001 JSON_parse (Some sendMessage) (Some S) story st0)"
  by (simp add: generate_001_def generateScript_def setStatus_def Let_def
      split: option.splits sum.splits list.splits prod.splits)

lemma generate_001_script_error:
  assumes "trim story \<noteq> []"
    and "generateScript_try JSON_parse sendMessage story = Inl e"
  shows "generate_001 JSON_parse (Some sendMessage) (Some S) story st0 =
           st0\<lparr>userInput_disabled := False, modelOutput := [], slideshow := [],
               slideshow_hidden := True, status_text := [], status_hidden := True,
               error_html := scriptwriting_failed e, error_hidden := False,
               requests := requests st0 @ [SendMessage (scriptwriterPrompt story)]\<rparr>"
  using assms
  by (simp add: generate_001_def generateScript_def setStatus_def setError_def Let_def)

lemma generate_001_no_panels:
  assumes "trim story \<noteq> []"
    and "generateScript_try JSON_parse sendMessage story = Inr script"
    and "script = None \<or> (\<exists>s. script = Some s \<and> (panels s = None \<or> panels s = Some []))"
  shows "generate_001 JSON_parse (Some sendMessage) (Some S) story st0 =
           st0\<lparr>userInput_disabled := False, modelOutput := [], slideshow := [],
               slideshow_hidden := True, status_text := [], status_hidden := True,
               error_html := [], error_hidden := True,
               requests := requests st0 @ [SendMessage (scriptwriterPrompt story)]\<rparr>"
  using assms
  by (auto simp: generate_001_def generateScript_def setStatus_def setError_def Let_def)

lemma generate_001_panels_run:
  assumes "trim story \<noteq> []"
    and "generateScript_try JSON_parse sendMessage story = Inr (Some script)"
    and "panels script = Some ps" and "ps \<noteq> []"
  shows "generate_001 JSON_parse (Some sendMessage) (Some S) story st0 =
           (setStatus [] False
              (generate_001_panels S (characterDescription script) (length ps) ps 0
                 (page_before_panels story st0)))\<lparr>userInput_disabled := False\<rparr>"
  using assms
  by (cases ps)
     (simp_all add: generate_001_def generateScript_def page_before_panels_def setStatus_def
        setError_def Let_def del: generate_001_panels.simps)

lemma page_before_panels_fields:
  "slideshow (page_before_panels story st0) = []"
  "requests (page_before_panels story st0) =
     requests st0 @ [SendMessage (scriptwriterPrompt story)]"
  by (simp_all add: page_before_panels_def setStatus_def setError_def Let_def)

text \<open>
  The loop over the panels when the panels \<open>before\<close> are rendered and the next one fails
  with the error \<open>e\<close>: the slides of the former stay, the error names the latter, and
  the panels \<open>after\<close> are not requested.
\<close>

lemma panels_loop_halts:
  assumes "length images = length before"
    and "\<forall>k<length before.
           generate_001_try (S (c + k) (imagePrompt d (before ! k))) = Inr (images ! k)"
    and "generate_001_try (S (c + length before) (imagePrompt d panel)) = Inl e"
  shows "slideshow (generate_001_panels S d n (before @ panel # after) c st) =
           slideshow st @ map2 (\<lambda>p i. Slide (panel_text p) i) before images
         \<and> requests (generate_001_panels S d n (before @ panel # after) c st) =
           requests st @ map (\<lambda>p. SendMessageStream (imagePrompt d p)) (before @ [panel])
         \<and> error_html (generate_001_panels S d n (before @ panel # after) c st) =
           panel_failed (c + length before + 1) panel e
         \<and> \<not> error_hidden (generate_001_panels S d n (before @ panel # after) c st)"
  using assms
proof (induction before arbitrary: images c st)
  case Nil
  then show ?case
    by (simp add: setError_def setStatus_def)
next
  case (Cons b bs)
  from Cons.prems(1) obtain i more where im: "images = i # more" "length more = length bs"
    by (cases images) auto
  from Cons.prems(2) [rule_format, of 0] im
  have t0: "generate_001_try (S c (imagePrompt d b)) = Inr i"
    by simp
  have tk: "\<forall>k<length bs.
              generate_001_try (S (Suc c + k) (imagePrompt d (bs ! k))) = Inr (more ! k)"
  proof (intro allI impI)
    fix k
    assume "k < length bs"
    with Cons.prems(2) [rule_format, of "Suc k"] im
    show "generate_001_try (S (Suc c + k) (imagePrompt d (bs ! k))) = Inr (more ! k)"
      by simp
  qed
  have te: "generate_001_try (S (Suc c + length bs) (imagePrompt d panel)) = Inl e"
    using Cons.prems(3) by simp
  note IH = Cons.IH [OF im(2) tk te]
  show ?case
    using t0 im IH by (simp add: addSlide_001_def setStatus_def)
qed

text \<open>
  Whatever the streams are, the slides that the loop appends are slides of the first
  panels, in order: the script's text with the most recent image of the panel's stream.
\<close>

lemma panels_loop_slides:
  "\<exists>k\<le>length ps.
     slideshow (generate_001_panels S d n ps c st) =
       slideshow st @
       map (\<lambda>j. Slide (panel_text (ps ! j))
                  (the (spec_image (stream_parts_001 (S (c + j) (imagePrompt d (ps ! j)))))))
           [0..<k]"
proof (induction ps arbitrary: c st)
  case Nil
  then show ?case by simp
next
  case (Cons p ps)
  show ?case
  proof (cases "generate_001_try (S c (imagePrompt d p))")
    case (Inl e)
    then have "slideshow (generate_001_panels S d n (p # ps) c st) = slideshow st"
      by (simp add: setError_def setStatus_def)
    then show ?thesis
      by (intro exI [of _ 0]) simp
  next
    case (Inr i)
    then have i: "spec_image (stream_parts_001 (S c (imagePrompt d p))) = Some i"
      by (auto simp: try_001 split: option.splits)
    define st1 where "st1 =
      addSlide_001 (panel_text p) i
        ((setStatus (''Generating panel '' @ string_of_nat (c + 1) @ '' of '' @
                     string_of_nat n @ ''...'') True st)
         \<lparr>requests := requests (setStatus (''Generating panel '' @ string_of_nat (c + 1) @
                       '' of '' @ string_of_nat n @ ''...'') True st) @
                     [SendMessageStream (imagePrompt d p)]\<rparr>)"
    have step: "generate_001_panels S d n (p # ps) c st = generate_001_panels S d n ps (Suc c) st1"
      using Inr by (simp add: st1_def Let_def)
    have sl: "slideshow st1 = slideshow st @ [Slide (panel_text p) i]"
      by (simp add: st1_def addSlide_001_def setStatus_def)
    from Cons.IH [of "Suc c" st1] obtain k where k: "k \<le> length ps"
      "slideshow (generate_001_panels S d n ps (Suc c) st1) =
       slideshow st1 @
       map (\<lambda>j. Slide (panel_text (ps ! j))
                  (the (spec_image (stream_parts_001 (S (Suc c + j) (imagePrompt d (ps ! j)))))))
           [0..<k]"
      by blast
    have "slideshow (generate_001_panels S d n (p # ps) c st) =
          slideshow st @
          map (\<lambda>j. Slide (panel_text ((p # ps) ! j))
                     (the (spec_image
                        (stream_parts_001 (S (c + j) (imagePrompt d ((p # ps) ! j)))))))
              [0..<Suc k]"
      unfolding step using k(2) i
      by (simp add: sl upt_rec [of 0 "Suc k"] map_Suc_upt [symmetric] o_def
          del: upt_Suc generate_001_panels.simps)
    with k(1) show ?thesis
      by (intro exI [of _ "Suc k"]) simp
  qed
qed

section \<open>The cleaning of the script text\<close>

lemma cleaned_wrapped:
  assumes "j \<noteq> []" and "\<not> is_space (hd j)" and "\<forall>c\<in>set ws1. is_space c"
  shows "cleanedJsonText (''```json'' @ ws1 @ j @ ws2 @ ''```'') = j @ ws2"
proof -
  from assms(1) obtain c j' where j: "j = c # j'"
    by (cases j) auto
  with assms(2) have c: "\<not> is_space c"
    by simp
  have "dropWhile is_space (ws1 @ j @ ws2 @ ''```'') = j @ ws2 @ ''```''"
    using assms(3) c j by (simp add: dropWhile_append2)
  moreover have "suffix ''```'' (j @ ws2 @ ''```'')"
    by (metis append.assoc suffixI)
  ultimately show ?thesis
    by (simp add: cleanedJsonText_def)
qed

lemma cleaned_unwrapped:
  assumes "j \<noteq> []" and "hd j \<noteq> CHR 0x60" and "last j \<noteq> CHR 0x60"
  shows "cleanedJsonText j = j"
proof -
  have "\<not> prefix ''```json'' j"
    using assms(1,2) by (cases j) auto
  moreover have "\<not> suffix ''```'' j"
  proof
    assume "suffix ''```'' j"
    then obtain zs where "j = zs @ ''```''"
      by (auto simp: suffix_def)
    then have "last j = CHR 0x60"
      by simp
    with assms(3) show False
      by simp
  qed
  ultimately show ?thesis
    by (simp add: cleanedJsonText_def)
qed

section \<open>\<^verbatim>\<open>parseError\<close> of \<^verbatim>\<open>src/index.tsx\<close>\<close>

lemma parseError_index_message:
  "regex_exec error = Some e \<Longrightarrow> JSON_parse e = Inr (Some (Payload (Some m))) \<Longrightarrow>
   parseError_index JSON_parse error = Some m"
  by (simp add: parseError_index_def)

lemma parseError_index_no_match:
  "regex_exec error = None \<Longrightarrow> parseError_index JSON_parse error = Some error"
  by (simp add: parseError_index_def)

lemma parseError_index_caught:
  "regex_exec error = Some e \<Longrightarrow> JSON_parse e = Inl x \<or> JSON_parse e = Inr None \<Longrightarrow>
   parseError_index JSON_parse error = Some error"
  by (auto simp: parseError_index_def)

text \<open>
  C10, at the failing input: the error text \<^verbatim>\<open>{"error":{"code":429}}\<close>. The payload
  \<^verbatim>\<open>{"code":429}\<close> parses, it has no \<^verbatim>\<open>message\<close>, nothing is thrown, and \<^verbatim>\<open>parseError\<close>
  returns \<^verbatim>\<open>undefined\<close>, not its argument; the page then reads
  \<^verbatim>\<open>Something went wrong: undefined\<close>.
\<close>

theorem parseError_undefined_without_message:
  "regex_exec error_without_message = Some payload_without_message
   \<and> parseError_index example_payload_parse error_without_message = None
   \<and> error_html (generate_index example_payload_parse
         (reply_with (failing_stream (JsError [] error_without_message))) ''a cat''
         example_page) = ''Something went wrong: undefined''"
  by (simp add: parseError_index_def error_without_message_def payload_without_message_def
      example_payload_parse_def dq_def capture_greedy_def is_line_terminator_def
      generate_index_def reply_with_def failing_stream_def example_page_def Let_def
      error_toString_def template_def)

section \<open>The claims on the pairing of text and image\<close>

text \<open>
  C1: in \<^verbatim>\<open>src/index.tsx\<close> and in \<^verbatim>\<open>src/unnamed/part_000\<close> the loops run their body once for
  every part of the stream, across the boundaries of candidates and chunks; the body
  appends the text or replaces the image and then, when the text is not empty and an
  image is held, appends exactly one slide made of both and resets both. A single chunk
  with the parts text \<open>A\<close>, image \<open>d1\<close>, text \<open>B\<close>, image \<open>d2\<close> gives the two slides
  \<open>(A, d1)\<close> and \<open>(B, d2)\<close>, in that order.
\<close>

theorem pairing_fires_after_every_part:
  "generate_index_chunks chs s =
     (fold generate_index_part (fst (parts_of_chunks chs)) s, snd (parts_of_chunks chs))
   \<and> generate_000_chunks chs s =
     (fold generate_000_part (fst (parts_of_chunks chs)) s, snd (parts_of_chunks chs))
   \<and> generate_index_part p (t, held, st) =
     (case (case image_of p of Some i \<Rightarrow> Some i | None \<Rightarrow> held) of
        Some i \<Rightarrow>
          if t @ text_of p \<noteq> []
          then ([], None, st\<lparr>slideshow := slideshow st @ [Slide (t @ text_of p) i],
                             slideshow_hidden := False\<rparr>)
          else (t @ text_of p, Some i, st)
      | None \<Rightarrow> (t @ text_of p, None, st))
   \<and> generate_000_part p (t, held, st) = generate_index_part p (t, held, st)
   \<and> slideshow (generate_index JSON_parse
        (reply_with (single_chunk [text_part ''A'', image_part d1, text_part ''B'', image_part d2]))
        message st0) =
     [Slide ''A'' (Img (''data:image/png;base64,'' @ d1)),
      Slide ''B'' (Img (''data:image/png;base64,'' @ d2))]
   \<and> (trim message \<noteq> [] \<longrightarrow>
      slideshow (generate_000
        (Some (reply_with (single_chunk [text_part ''A'', image_part d1, text_part ''B'', image_part d2])))
        message st0) =
      [Slide ''A'' (Img (''data:image/png;base64,'' @ d1)),
       Slide ''B'' (Img (''data:image/png;base64,'' @ d2))])"
proof -
  have ev: "spec_slides [] [text_part ''A'', image_part d1, text_part ''B'', image_part d2] =
              [Slide ''A'' (Img (''data:image/png;base64,'' @ d1)),
               Slide ''B'' (Img (''data:image/png;base64,'' @ d2))]"
       "spec_pending [] [text_part ''A'', image_part d1, text_part ''B'', image_part d2] = []"
    by (simp_all add: text_part_def image_part_def spec_text_def spec_image_def image_of_def
        text_of_def List.map_filter_def)
  have parts: "stream_parts (single_chunk ps) = ps" "stream_error (single_chunk ps) = None" for ps
    by (simp_all add: stream_parts_def stream_error_def single_chunk_def)
  have "generate_000_chunks chs s =
     (fold generate_000_part (fst (parts_of_chunks chs)) s, snd (parts_of_chunks chs))"
    by (simp add: chunks_000_eq index_chunks part_000_eq)
  moreover have "slideshow (generate_index JSON_parse
        (reply_with (single_chunk [text_part ''A'', image_part d1, text_part ''B'', image_part d2]))
        message st0) =
     [Slide ''A'' (Img (''data:image/png;base64,'' @ d1)),
      Slide ''B'' (Img (''data:image/png;base64,'' @ d2))]"
    by (simp add: generate_index_slideshow reply_with_def parts ev spec_image_Nil
        del: spec_slides.simps spec_pending.simps)
  moreover have "trim message \<noteq> [] \<longrightarrow>
      slideshow (generate_000
        (Some (reply_with (single_chunk [text_part ''A'', image_part d1, text_part ''B'', image_part d2])))
        message st0) =
      [Slide ''A'' (Img (''data:image/png;base64,'' @ d1)),
       Slide ''B'' (Img (''data:image/png;base64,'' @ d2))]"
    by (simp add: generate_000_slideshow reply_with_def parts ev
        del: spec_slides.simps spec_pending.simps)
  ultimately show ?thesis
    by (simp add: index_chunks index_part_any part_000_eq)
qed

text \<open>C1 on a story and a page: the run of \<^verbatim>\<open>src/unnamed/part_000\<close> shows the two slides.\<close>

theorem pairing_fires_after_every_part_witness:
  "trim ''a cat'' \<noteq> []
   \<and> slideshow (generate_000
        (Some (reply_with
           (single_chunk [text_part ''A'', image_part ''I1'', text_part ''B'', image_part ''I2''])))
        ''a cat'' example_page) =
      [Slide ''A'' (Img ''data:image/png;base64,I1''),
       Slide ''B'' (Img ''data:image/png;base64,I2'')]"
proof -
  have t: "trim ''a cat'' \<noteq> []"
    by (simp add: trim_def is_space_def)
  with pairing_fires_after_every_part
         [where message = "''a cat''" and ?st0.0 = example_page and ?d1.0 = "''I1''"
            and ?d2.0 = "''I2''"]
  show ?thesis
    by simp
qed

text \<open>
  C7: a text fragment is appended to the accumulator and an image fragment replaces the
  held image. In \<^verbatim>\<open>src/index.tsx\<close>, after any sequence of parts from the start of a stream,
  the accumulator is the concatenation of the text fragments since the last emitted slide
  and the held image is the most recent image fragment since then; in
  \<^verbatim>\<open>src/unnamed/part_001\<close>, where no slide is emitted inside a stream, they are the
  concatenation of all text fragments and the most recent image fragment.
\<close>

theorem accumulators_since_last_slide:
  "fst (fold generate_index_part ps ([], None, st)) = concat (map text_of (spec_pending [] ps))
   \<and> fst (snd (fold generate_index_part ps ([], None, st))) = spec_image (spec_pending [] ps)
   \<and> generate_001_part p (t, held) =
       (t @ text_of p, case image_of p of Some i \<Rightarrow> Some i | None \<Rightarrow> held)
   \<and> fold generate_001_part ps ([], None) = (concat (map text_of ps), spec_image ps)"
proof -
  have "fold generate_index_part ps (spec_text [], spec_image [], st) =
     (spec_text (spec_pending [] ps), spec_image (spec_pending [] ps),
      st\<lparr>slideshow := slideshow st @ spec_slides [] ps,
         slideshow_hidden := slideshow_hidden st \<and> spec_slides [] ps = []\<rparr>)"
    by (rule fold_index_part)
  then have "fold generate_index_part ps ([], None, st) =
     (spec_text (spec_pending [] ps), spec_image (spec_pending [] ps),
      st\<lparr>slideshow := slideshow st @ spec_slides [] ps,
         slideshow_hidden := slideshow_hidden st \<and> spec_slides [] ps = []\<rparr>)"
    by (simp add: spec_text_Nil spec_image_Nil)
  moreover have "fold generate_001_part ps ([], None) = (concat (map text_of ps), spec_image ps)"
    by (simp add: fold_001_part spec_text_def split: option.splits)
  ultimately show ?thesis
    by (simp add: part_001_step spec_text_def)
qed

text \<open>
  C7 on two texts and two images: \<^verbatim>\<open>src/index.tsx\<close> emits a slide at the first image and
  then holds the second one with no text; \<^verbatim>\<open>src/unnamed/part_001\<close> holds both texts,
  concatenated, and the second image.
\<close>

theorem accumulators_since_last_slide_witness:
  "fst (fold generate_index_part
          [text_part ''Once '', text_part ''upon'', image_part ''I1'', image_part ''I2'']
          ([], None, example_page)) = []
   \<and> fst (snd (fold generate_index_part
          [text_part ''Once '', text_part ''upon'', image_part ''I1'', image_part ''I2'']
          ([], None, example_page))) = Some (Img ''data:image/png;base64,I2'')
   \<and> fold generate_001_part
          [text_part ''Once '', text_part ''upon'', image_part ''I1'', image_part ''I2'']
          ([], None) = (''Once upon'', Some (Img ''data:image/png;base64,I2''))"
  using accumulators_since_last_slide
          [of "[text_part ''Once '', text_part ''upon'', image_part ''I1'', image_part ''I2'']"
              example_page]
  by (simp add: text_part_def image_part_def spec_text_def spec_image_def image_of_def
      text_of_def List.map_filter_def)

text \<open>
  C4, as stated, fails on \<^verbatim>\<open>src/index.tsx\<close>: for a stream whose only part is an image, the
  pairing check emits no slide, and the run still shows one, made after the loop (lines
  112 to 116) of the held image and the empty text.
\<close>

theorem leftover_image_emitted_index:
  "spec_slides [] [image_part ''I1''] = []
   \<and> slideshow (generate_index example_payload_parse
        (reply_with (single_chunk [image_part ''I1''])) ''a cat'' example_page) =
      [Slide [] (Img ''data:image/png;base64,I1'')]"
  by (simp add: generate_index_def reply_with_def single_chunk_def image_part_def
      generate_index_part_def addSlide_index_def text_of_def example_page_def Let_def
      spec_text_def spec_image_def image_of_def List.map_filter_def)

text \<open>
  C4, amended: in \<^verbatim>\<open>src/unnamed/part_000\<close> the slides of a run are exactly the slides of the
  pairing check, so a text or an image left over at the end of the stream is discarded. In
  \<^verbatim>\<open>src/index.tsx\<close> a text left over without an image is discarded too, and an image still
  held when the stream ends without an error is shown as one more slide, with an empty
  text.
\<close>

theorem leftover_at_end_of_stream:
  "slideshow (generate_000 (Some chat) message st0) =
     (if trim message = [] then slideshow st0
      else spec_slides [] (stream_parts (chat (message @ additionalInstructions_000))))
   \<and> slideshow (generate_index JSON_parse chat message st0) =
     spec_slides [] (stream_parts (chat (message @ additionalInstructions_index))) @
     (case stream_error (chat (message @ additionalInstructions_index)) of
        Some e \<Rightarrow> []
      | None \<Rightarrow>
          (case spec_image
                  (spec_pending [] (stream_parts (chat (message @ additionalInstructions_index)))) of
             Some i \<Rightarrow> [Slide [] i]
           | None \<Rightarrow> []))"
  by (simp add: generate_000_slideshow generate_index_slideshow)

text \<open>
  C4, amended, on a stream with a slide and a text left over: both programs show the one
  slide.
\<close>

theorem leftover_at_end_of_stream_witness:
  "slideshow (generate_000
      (Some (reply_with (single_chunk [text_part ''A'', image_part ''I1'', text_part ''left''])))
      ''a cat'' example_page) = [Slide ''A'' (Img ''data:image/png;base64,I1'')]
   \<and> slideshow (generate_index example_payload_parse
      (reply_with (single_chunk [text_part ''A'', image_part ''I1'', text_part ''left'']))
      ''a cat'' example_page) = [Slide ''A'' (Img ''data:image/png;base64,I1'')]"
proof -
  have t: "trim ''a cat'' \<noteq> []"
    by (simp add: trim_def is_space_def)
  show ?thesis
    using t leftover_at_end_of_stream
          [of "reply_with (single_chunk [text_part ''A'', image_part ''I1'', text_part ''left''])"
              "''a cat''" example_page example_payload_parse]
    by (simp add: reply_with_def single_chunk_def stream_parts_def stream_error_def
        text_part_def image_part_def spec_text_def spec_image_def image_of_def text_of_def
        List.map_filter_def)
qed

section \<open>Facts about the example inputs\<close>

lemma trim_trailing:
  assumes "s \<noteq> []" and "\<not> is_space (hd s)" and "\<not> is_space (last s)"
    and "\<forall>c\<in>set ws. is_space c"
  shows "trim (s @ ws) = s"
proof -
  from assms(1,2) have "dropWhile is_space (s @ ws) = s @ ws"
    by (cases s) auto
  moreover have "dropWhile is_space (rev ws @ rev s) = dropWhile is_space (rev s)"
    by (rule dropWhile_append2) (use assms(4) in auto)
  moreover from assms(1,3) have "dropWhile is_space (rev s) = rev s"
    by (cases "rev s") (auto simp: last_rev [symmetric] simp del: last_rev)
  ultimately show ?thesis
    by (simp add: trim_def)
qed

lemma trim_unchanged:
  assumes "s \<noteq> []" and "\<not> is_space (hd s)" and "\<not> is_space (last s)"
  shows "trim s = s"
  using trim_trailing [OF assms, of "[]"] by simp

lemma trim_a_cat: "trim ''a cat'' \<noteq> []"
  by (simp add: trim_def is_space_def)

lemma json_three_panels_shape:
  "json_three_panels \<noteq> []" "hd json_three_panels = CHR ''{''"
  "last json_three_panels = CHR ''}''"
  by (simp_all add: json_three_panels_def dq_def)

lemma json_empty_panels_shape:
  "json_empty_panels \<noteq> []" "hd json_empty_panels = CHR ''{''"
  "last json_empty_panels = CHR ''}''"
  by (simp_all add: json_empty_panels_def dq_def)

lemma example_script_parse_three:
  "example_script_parse json_three_panels = Inr (Some script_three_panels)"
  by (simp add: example_script_parse_def trim_unchanged json_three_panels_shape is_space_def)

lemma example_script_parse_empty:
  "example_script_parse json_empty_panels = Inr (Some script_empty_panels)"
proof -
  have "json_empty_panels \<noteq> json_three_panels"
    by (simp add: json_empty_panels_def json_three_panels_def dq_def)
  then show ?thesis
    by (simp add: example_script_parse_def trim_unchanged json_empty_panels_shape is_space_def)
qed

lemma example_three_panels_script:
  "generateScript_try example_script_parse (reply_text json_three_panels) story =
     Inr (Some script_three_panels)"
  by (simp add: generateScript_try_def reply_text_def json_three_panels_shape
      cleaned_unwrapped example_script_parse_three)

lemma example_empty_panels_script:
  "generateScript_try example_script_parse (reply_text json_empty_panels) story =
     Inr (Some script_empty_panels)"
  by (simp add: generateScript_try_def reply_text_def json_empty_panels_shape
      cleaned_unwrapped example_script_parse_empty)

section \<open>The two embeddings of \<^verbatim>\<open>src/unnamed/part_001\<close>\<close>

lemma string_of_nat_not_Nil: "string_of_nat n \<noteq> []"
  by (subst string_of_nat.simps) simp

lemma string_of_nat_zero: "string_of_nat 0 = ''0''"
  by code_simp

lemma string_of_nat_zero_iff: "string_of_nat n = ''0'' \<longleftrightarrow> n = 0"
proof
  assume z: "string_of_nat n = ''0''"
  show "n = 0"
  proof (cases "n < 10")
    case True
    with z have "char_of (48 + n) = CHR ''0''"
      by (subst (asm) string_of_nat.simps) simp
    then have "of_char (char_of (48 + n)) = (of_char (CHR ''0'') :: nat)"
      by simp
    with True show ?thesis
      by (simp add: of_char_of)
  next
    case False
    with z have "string_of_nat (n div 10) @ [char_of (48 + n mod 10)] = ''0''"
      by (subst (asm) string_of_nat.simps) simp
    then have "string_of_nat (n div 10) = []"
      by simp
    then show ?thesis
      by (simp add: string_of_nat_not_Nil)
  qed
next
  assume "n = 0"
  then show "string_of_nat n = ''0''"
    by (simp add: string_of_nat_zero)
qed

text \<open>The messages contain what they are made of.\<close>

lemma panel_failed_names:
  "sublist (string_of_nat n) (panel_failed n p e)"
  "sublist (panel_text p) (panel_failed n p e)"
  "sublist (error_toString e) (panel_failed n p e)"
proof -
  show "sublist (string_of_nat n) (panel_failed n p e)"
    unfolding panel_failed_def sublist_def by blast
  have "panel_failed n p e =
          (''<strong>Panel '' @ string_of_nat n @
           '' Failed:</strong> Could not generate an image for the text: '' @ dq) @
          panel_text p @ (dq @ '' <br><br><em>Error: '' @ error_toString e @ ''</em>'')"
    by (simp add: panel_failed_def)
  then show "sublist (panel_text p) (panel_failed n p e)"
    unfolding sublist_def by blast
  have "panel_failed n p e =
          (''<strong>Panel '' @ string_of_nat n @
           '' Failed:</strong> Could not generate an image for the text: '' @ dq @
           panel_text p @ dq @ '' <br><br><em>Error: '') @
          error_toString e @ ''</em>''"
    by (simp add: panel_failed_def)
  then show "sublist (error_toString e) (panel_failed n p e)"
    unfolding sublist_def by blast
qed


text \<open>
  On panels of the declared interface and a description that is a string, the loop on
  values is the loop of the interface, and throws nothing.
\<close>

lemma any_panels_typed:
  assumes "list_all2 (\<lambda>item p. as_panel item = Some p) items ps"
    and "getProperty script ''characterDescription'' = Inr (Some (JStr d))"
    and "getProperty script_panels ''length'' = Inr (Some (JNum (string_of_nat n)))"
  shows "generate_001_any_panels S script script_panels items c st =
           (generate_001_panels S d n ps c st, None)"
  using assms(1)
proof (induction items ps arbitrary: c st rule: list_all2_induct)
  case Nil
  then show ?case by simp
next
  case (Cons item items p ps)
  from Cons.hyps(1) obtain kvs t where item: "item = JObj kvs"
    "map_of (rev kvs) ''text'' = Some (JStr t)" "p = Panel t"
    by (cases item) (auto split: option.splits json.splits)
  show ?case
  proof (cases "generate_001_try (S c (imagePrompt d (Panel t)))")
    case (Inl e)
    then show ?thesis
      using item assms(2,3) by (simp add: template_any_def Let_def)
  next
    case (Inr img)
    then show ?thesis
      using item assms(2,3) Cons.IH by (simp add: template_any_def Let_def)
  qed
qed

lemma generate_001_any_typed:
  assumes "trim story \<noteq> []"
    and "generateScript_any_try JSON_parse sendMessage story = Inr script"
    and "getProperty script ''characterDescription'' = Inr (Some (JStr d))"
    and "getProperty script ''panels'' = Inr (Some (JArr items))"
    and "list_all2 (\<lambda>item p. as_panel item = Some p) items ps"
    and "ps \<noteq> []"
  shows "generate_001_any JSON_parse (Some sendMessage) (Some S) story st0 =
           ((setStatus [] False
               (generate_001_panels S d (length ps) ps 0
                  (page_before_panels story st0)))\<lparr>userInput_disabled := False\<rparr>, None)"
proof -
  from assms(3) obtain kvs where obj: "script = JObj kvs"
    by (cases script) (auto split: if_splits)
  from assms(5) have len: "length items = length ps"
    by (rule list_all2_lengthD)
  with assms(6) have ne: "string_of_nat (length items) \<noteq> ''0''"
    by (simp add: string_of_nat_zero_iff)
  have "generate_001_any_panels S script (JArr items) items 0 st =
                (generate_001_panels S d (length ps) ps 0 st, None)" for st
    using assms(5,3) by (rule any_panels_typed) (simp add: len)
  then have loop: "generate_001_any_panels S (JObj kvs) (JArr items) items 0 st =
                (generate_001_panels S d (length ps) ps 0 st, None)" for st
    by (simp add: obj)
  show ?thesis
    using assms(1,2,4) obj ne
    by (simp add: generate_001_any_def generateScript_any_def loop page_before_panels_def
        setStatus_def setError_def Let_def del: generate_001_panels.simps)
qed

text \<open>
  So \<^verbatim>\<open>generate\<close> on values and \<^verbatim>\<open>generate\<close> on the interface agree on a script of the
  interface, whatever parser the latter is given that reads the script as the former.
\<close>

lemma generate_001_typed_agrees:
  assumes "trim story \<noteq> []"
    and "generateScript_any_try JSON_parse sendMessage story = Inr script"
    and "getProperty script ''characterDescription'' = Inr (Some (JStr d))"
    and "getProperty script ''panels'' = Inr (Some (JArr items))"
    and "list_all2 (\<lambda>item p. as_panel item = Some p) items ps"
    and "ps \<noteq> []"
    and "generateScript_try JSON_parse' sendMessage story =
           Inr (Some \<lparr>characterDescription = d, panels = Some ps\<rparr>)"
  shows "generate_001_any JSON_parse (Some sendMessage) (Some S) story st0 =
           (generate_001 JSON_parse' (Some sendMessage) (Some S) story st0, None)"
proof -
  have "panels \<lparr>characterDescription = d, panels = Some ps\<rparr> = Some ps"
    by simp
  from generate_001_panels_run [OF assms(1) assms(7) this assms(6), where S = S and ?st0.0 = st0]
    generate_001_any_typed [OF assms(1-6), where S = S and ?st0.0 = st0]
  show ?thesis
    by simp
qed



lemma string_of_nat_two: "string_of_nat (Suc (Suc 0)) = ''2''"
  by code_simp

section \<open>The claims on the two-stage pipeline\<close>

text \<open>
  C2: in \<^verbatim>\<open>src/unnamed/part_001\<close>, when the script is generated, the panels \<open>before\<close> are
  rendered and the stream of the next panel completes with no image held, the run shows
  the message of line 167 for that panel, which contains the number of the panel and its
  text, and halts the loop: the slideshow holds the slides of the panels before it, the
  requests issued are the one for the script and those of the panels up to it (none for a
  panel \<open>after\<close>), and the input is enabled again.
\<close>

theorem panel_without_image_halts_run:
  assumes "trim story \<noteq> []"
    and "generateScript_try JSON_parse sendMessage story = Inr (Some script)"
    and "panels script = Some (before @ panel # after)"
    and "length images = length before"
    and "\<forall>k<length before.
           generate_001_try (S k (imagePrompt (characterDescription script) (before ! k))) =
           Inr (images ! k)"
    and "failure (S (length before) (imagePrompt (characterDescription script) panel)) = None"
    and "generate_001_chunks
           (chunks (S (length before) (imagePrompt (characterDescription script) panel)))
           ([], None) = ((t, None), None)"
  shows "slideshow (generate_001 JSON_parse (Some sendMessage) (Some S) story st0) =
           map2 (\<lambda>p i. Slide (panel_text p) i) before images
         \<and> error_html (generate_001 JSON_parse (Some sendMessage) (Some S) story st0) =
           panel_failed (length before + 1) panel
             (Error ''Image model did not return an image for this panel.'')
         \<and> sublist (string_of_nat (length before + 1))
             (error_html (generate_001 JSON_parse (Some sendMessage) (Some S) story st0))
         \<and> sublist (panel_text panel)
             (error_html (generate_001 JSON_parse (Some sendMessage) (Some S) story st0))
         \<and> \<not> error_hidden (generate_001 JSON_parse (Some sendMessage) (Some S) story st0)
         \<and> requests (generate_001 JSON_parse (Some sendMessage) (Some S) story st0) =
           requests st0 @ SendMessage (scriptwriterPrompt story) #
           map (\<lambda>p. SendMessageStream (imagePrompt (characterDescription script) p))
             (before @ [panel])
         \<and> \<not> userInput_disabled (generate_001 JSON_parse (Some sendMessage) (Some S) story st0)"
proof -
  let ?d = "characterDescription script"
  let ?ps = "before @ panel # after"
  let ?r = "generate_001 JSON_parse (Some sendMessage) (Some S) story st0"
  have fails: "generate_001_try (S (0 + length before) (imagePrompt ?d panel)) =
                 Inl (Error ''Image model did not return an image for this panel.'')"
    using assms(6,7) by (simp add: generate_001_try_def)
  have renders: "\<forall>k<length before.
                   generate_001_try (S (0 + k) (imagePrompt ?d (before ! k))) = Inr (images ! k)"
    using assms(5) by simp
  have run: "?r =
               (setStatus [] False
                  (generate_001_panels S ?d (length ?ps) ?ps 0
                     (page_before_panels story st0)))\<lparr>userInput_disabled := False\<rparr>"
    using assms(1,2,3) by (intro generate_001_panels_run) simp_all
  note loop = panels_loop_halts [OF assms(4) renders fails,
      of "length ?ps" after "page_before_panels story st0"]
  have main: "slideshow ?r = map2 (\<lambda>p i. Slide (panel_text p) i) before images
         \<and> error_html ?r =
           panel_failed (length before + 1) panel
             (Error ''Image model did not return an image for this panel.'')
         \<and> \<not> error_hidden ?r
         \<and> requests ?r =
           requests st0 @ SendMessage (scriptwriterPrompt story) #
           map (\<lambda>p. SendMessageStream (imagePrompt ?d p)) (before @ [panel])
         \<and> \<not> userInput_disabled ?r"
    unfolding run using loop
    by (simp add: setStatus_def page_before_panels_fields del: generate_001_panels.simps)
  then have "error_html ?r =
           panel_failed (length before + 1) panel
             (Error ''Image model did not return an image for this panel.'')"
    by blast
  then have "sublist (string_of_nat (length before + 1)) (error_html ?r)"
    and "sublist (panel_text panel) (error_html ?r)"
    by (simp_all only: panel_failed_names)
  with main show ?thesis
    by blast
qed

text \<open>
  C2 on a script of three panels whose second stream carries no image: one slide is
  rendered, from the first panel, the third panel is never requested, and the message
  reads \<^verbatim>\<open>Panel 2\<close> and the text \<^verbatim>\<open>two\<close> of that panel.
\<close>

theorem panel_without_image_halts_run_witness:
  "slideshow (generate_001 example_script_parse (Some (reply_text json_three_panels))
      (Some second_reply_without_image) ''a cat'' example_page) =
     [Slide ''one'' (Img ''data:image/png;base64,iVBORw0KGgo='')]
   \<and> error_html (generate_001 example_script_parse (Some (reply_text json_three_panels))
      (Some second_reply_without_image) ''a cat'' example_page) =
     ''<strong>Panel 2 Failed:</strong> Could not generate an image for the text: '' @ dq @
     ''two'' @ dq @
     '' <br><br><em>Error: Error: Image model did not return an image for this panel.</em>''
   \<and> sublist ''2'' (error_html (generate_001 example_script_parse
      (Some (reply_text json_three_panels)) (Some second_reply_without_image) ''a cat''
      example_page))
   \<and> sublist ''two'' (error_html (generate_001 example_script_parse
      (Some (reply_text json_three_panels)) (Some second_reply_without_image) ''a cat''
      example_page))
   \<and> \<not> error_hidden (generate_001 example_script_parse (Some (reply_text json_three_panels))
      (Some second_reply_without_image) ''a cat'' example_page)
   \<and> requests (generate_001 example_script_parse (Some (reply_text json_three_panels))
      (Some second_reply_without_image) ''a cat'' example_page) =
     [SendMessage (scriptwriterPrompt ''a cat''),
      SendMessageStream (imagePrompt ''a grey cat'' (Panel ''one'')),
      SendMessageStream (imagePrompt ''a grey cat'' (Panel ''two''))]
   \<and> \<not> userInput_disabled (generate_001 example_script_parse
      (Some (reply_text json_three_panels)) (Some second_reply_without_image) ''a cat''
      example_page)"
proof -
  have h1: "trim ''a cat'' \<noteq> []"
    by (rule trim_a_cat)
  have h2: "generateScript_try example_script_parse (reply_text json_three_panels) ''a cat'' =
              Inr (Some script_three_panels)"
    by (rule example_three_panels_script)
  have h3: "panels script_three_panels = Some ([Panel ''one''] @ Panel ''two'' # [Panel ''three''])"
    by (simp add: script_three_panels_def)
  have h4: "length [Img ''data:image/png;base64,iVBORw0KGgo=''] = length [Panel ''one'']"
    by simp
  have h5: "\<forall>k<length [Panel ''one''].
      generate_001_try (second_reply_without_image k
        (imagePrompt (characterDescription script_three_panels) ([Panel ''one''] ! k))) =
      Inr ([Img ''data:image/png;base64,iVBORw0KGgo=''] ! k)"
    by (simp add: generate_001_try_def second_reply_without_image_def single_chunk_def
        generate_001_part_def text_part_def image_part_def text_of_def)
  have h6: "failure (second_reply_without_image (length [Panel ''one''])
      (imagePrompt (characterDescription script_three_panels) (Panel ''two''))) = None"
    by (simp add: second_reply_without_image_def single_chunk_def)
  have h7: "generate_001_chunks (chunks (second_reply_without_image (length [Panel ''one''])
      (imagePrompt (characterDescription script_three_panels) (Panel ''two''))))
      ([], None) = ((''Sorry, no picture.'', None), None)"
    by (simp add: second_reply_without_image_def single_chunk_def generate_001_part_def
        text_part_def text_of_def)
  have msg: "panel_failed (Suc (Suc 0)) (Panel ''two'')
               (Error ''Image model did not return an image for this panel.'') =
             ''<strong>Panel 2 Failed:</strong> Could not generate an image for the text: '' @
             dq @ ''two'' @ dq @
             '' <br><br><em>Error: Error: Image model did not return an image for this panel.</em>''"
    by (simp add: panel_failed_def string_of_nat_two error_toString_def Error_def)
  let ?r = "generate_001 example_script_parse (Some (reply_text json_three_panels))
      (Some second_reply_without_image) ''a cat'' example_page"
  note t = panel_without_image_halts_run [OF h1 h2 h3 h4 h5 h6 h7, of example_page]
  have n: "length [Panel ''one''] + 1 = Suc (Suc 0)"
    by simp
  from t have slides: "slideshow ?r = [Slide ''one'' (Img ''data:image/png;base64,iVBORw0KGgo='')]"
    by simp
  have "error_html ?r = panel_failed (Suc (Suc 0)) (Panel ''two'')
                 (Error ''Image model did not return an image for this panel.'')"
    using t [unfolded n] by blast
  then have html: "error_html ?r =
      ''<strong>Panel 2 Failed:</strong> Could not generate an image for the text: '' @ dq @
      ''two'' @ dq @
      '' <br><br><em>Error: Error: Image model did not return an image for this panel.</em>''"
    by (simp only: msg)
  have "sublist (string_of_nat (Suc (Suc 0))) (error_html ?r)"
    using t [unfolded n] by blast
  then have number: "sublist ''2'' (error_html ?r)"
    by (simp only: string_of_nat_two)
  from t have "sublist (panel_text (Panel ''two'')) (error_html ?r)"
    by blast
  then have named: "sublist ''two'' (error_html ?r)"
    by simp
  from t have shown: "\<not> error_hidden ?r" and enabled: "\<not> userInput_disabled ?r"
    by blast+
  from t have reqs: "requests ?r =
     [SendMessage (scriptwriterPrompt ''a cat''),
      SendMessageStream (imagePrompt ''a grey cat'' (Panel ''one'')),
      SendMessageStream (imagePrompt ''a grey cat'' (Panel ''two''))]"
    by (simp add: example_page_def script_three_panels_def)
  from slides html number named shown reqs enabled show ?thesis
    by blast
qed

text \<open>
  C9: in \<^verbatim>\<open>src/unnamed/part_001\<close> the slides of a run are slides of the first panels of the
  script, in order, and each one pairs the text of its panel in the script with the most
  recent image fragment of the panel's stream. The \<^verbatim>\<open>try\<close> block of a panel yields that image
  or an error: the text fragments of the stream are accumulated and take no part in the
  result.
\<close>

theorem caption_is_panel_text:
  assumes "trim story \<noteq> []"
    and "generateScript_try JSON_parse sendMessage story = Inr (Some script)"
    and "panels script = Some ps"
  shows "length (slideshow (generate_001 JSON_parse (Some sendMessage) (Some S) story st0))
           \<le> length ps
         \<and> slideshow (generate_001 JSON_parse (Some sendMessage) (Some S) story st0) =
           map (\<lambda>j. Slide (panel_text (ps ! j))
                  (the (spec_image (stream_parts_001
                     (S j (imagePrompt (characterDescription script) (ps ! j)))))))
             [0..<length (slideshow (generate_001 JSON_parse (Some sendMessage) (Some S) story st0))]
         \<and> fst (fold generate_001_part parts1 ([], None)) = concat (map text_of parts1)
         \<and> generate_001_try result =
           (case stream_error_001 result of
              Some e \<Rightarrow> Inl e
            | None \<Rightarrow>
                (case spec_image (stream_parts_001 result) of
                   Some i \<Rightarrow> Inr i
                 | None \<Rightarrow> Inl (Error ''Image model did not return an image for this panel.'')))"
proof -
  let ?r = "generate_001 JSON_parse (Some sendMessage) (Some S) story st0"
  let ?f = "\<lambda>j. Slide (panel_text (ps ! j))
                  (the (spec_image (stream_parts_001
                     (S j (imagePrompt (characterDescription script) (ps ! j))))))"
  have "\<exists>k\<le>length ps. slideshow ?r = map ?f [0..<k]"
  proof (cases "ps = []")
    case True
    then have "slideshow ?r = []"
      using generate_001_no_panels [OF assms(1,2), of S st0] assms(3) by simp
    then show ?thesis
      by (intro exI [of _ 0]) simp
  next
    case False
    have run: "?r = (setStatus [] False
                  (generate_001_panels S (characterDescription script) (length ps) ps 0
                     (page_before_panels story st0)))\<lparr>userInput_disabled := False\<rparr>"
      using assms False by (intro generate_001_panels_run) simp_all
    from panels_loop_slides [of ps S "characterDescription script" "length ps" 0
        "page_before_panels story st0"]
    show ?thesis
      unfolding run by (simp add: setStatus_def page_before_panels_fields)
  qed
  then obtain k where k: "k \<le> length ps" "slideshow ?r = map ?f [0..<k]"
    by blast
  then have "length (slideshow ?r) = k"
    by simp
  with k have "length (slideshow ?r) \<le> length ps \<and>
               slideshow ?r = map ?f [0..<length (slideshow ?r)]"
    by simp
  moreover have "fst (fold generate_001_part parts1 ([], None)) = concat (map text_of parts1)"
    by (simp add: fold_001_part spec_text_def)
  ultimately show ?thesis
    using try_001 [of result] by simp
qed

text \<open>
  C9 on the script of three panels: the one slide has the text of the first panel, not the
  text \<^verbatim>\<open>Here it is.\<close> that its stream carries.
\<close>

theorem caption_is_panel_text_witness:
  "length (slideshow (generate_001 example_script_parse (Some (reply_text json_three_panels))
      (Some second_reply_without_image) ''a cat'' example_page)) \<le> 3
   \<and> slideshow (generate_001 example_script_parse (Some (reply_text json_three_panels))
      (Some second_reply_without_image) ''a cat'' example_page) =
     map (\<lambda>j. Slide (panel_text ([Panel ''one'', Panel ''two'', Panel ''three''] ! j))
            (the (spec_image (stream_parts_001
               (second_reply_without_image j
                  (imagePrompt ''a grey cat''
                     ([Panel ''one'', Panel ''two'', Panel ''three''] ! j)))))))
       [0..<length (slideshow (generate_001 example_script_parse
          (Some (reply_text json_three_panels)) (Some second_reply_without_image) ''a cat''
          example_page))]
   \<and> spec_image (stream_parts_001 (second_reply_without_image 0
        (imagePrompt ''a grey cat'' (Panel ''one'')))) =
     Some (Img ''data:image/png;base64,iVBORw0KGgo='')
   \<and> spec_text (stream_parts_001 (second_reply_without_image 0
        (imagePrompt ''a grey cat'' (Panel ''one'')))) = ''Here it is.''"
proof -
  have h1: "trim ''a cat'' \<noteq> []"
    by (rule trim_a_cat)
  have h2: "generateScript_try example_script_parse (reply_text json_three_panels) ''a cat'' =
              Inr (Some script_three_panels)"
    by (rule example_three_panels_script)
  have h3: "panels script_three_panels = Some [Panel ''one'', Panel ''two'', Panel ''three'']"
    by (simp add: script_three_panels_def)
  have img: "spec_image (stream_parts_001 (second_reply_without_image 0
        (imagePrompt ''a grey cat'' (Panel ''one'')))) =
     Some (Img ''data:image/png;base64,iVBORw0KGgo='')"
     "spec_text (stream_parts_001 (second_reply_without_image 0
        (imagePrompt ''a grey cat'' (Panel ''one'')))) = ''Here it is.''"
    by (simp_all add: stream_parts_001_def second_reply_without_image_def single_chunk_def
        spec_image_def spec_text_def image_of_def text_of_def text_part_def image_part_def
        List.map_filter_def)
  show ?thesis
    using caption_is_panel_text
            [OF h1 h2 h3, where S = second_reply_without_image and ?st0.0 = example_page
               and ?parts1.0 = "[]" and result = "single_chunk []"]
          img
    by (simp add: script_three_panels_def numeral_3_eq_3)
qed

text \<open>
  C3, at the failing input: the text model answers with a script whose list of panels is
  empty. The run ends before any panel is requested and no slide is rendered, as the claim
  says, but nothing is shown to the user: \<^verbatim>\<open>setError\<close> is called in the \<^verbatim>\<open>catch\<close> block of
  \<^verbatim>\<open>generateScript\<close> only, and here nothing was thrown, so the error element stays empty
  and hidden.
\<close>

theorem empty_panels_fail_silently:
  "error_hidden (generate_001 example_script_parse (Some (reply_text json_empty_panels))
      (Some second_reply_without_image) ''a cat'' example_page)
   \<and> error_html (generate_001 example_script_parse (Some (reply_text json_empty_panels))
      (Some second_reply_without_image) ''a cat'' example_page) = []
   \<and> status_hidden (generate_001 example_script_parse (Some (reply_text json_empty_panels))
      (Some second_reply_without_image) ''a cat'' example_page)
   \<and> slideshow (generate_001 example_script_parse (Some (reply_text json_empty_panels))
      (Some second_reply_without_image) ''a cat'' example_page) = []
   \<and> requests (generate_001 example_script_parse (Some (reply_text json_empty_panels))
      (Some second_reply_without_image) ''a cat'' example_page) =
     [SendMessage (scriptwriterPrompt ''a cat'')]"
  by (simp add: generate_001_def generateScript_def example_empty_panels_script trim_a_cat
      script_empty_panels_def setStatus_def setError_def example_page_def Let_def)

text \<open>
  C5: for a text \<open>j\<close> that starts with an opening and ends with a closing brace, wrapped
  as \<^verbatim>\<open>```json\<close>, white space, \<open>j\<close>, some text \<open>ws2\<close>, \<^verbatim>\<open>```\<close>: the cleaning returns \<open>j\<close>
  followed by \<open>ws2\<close>, it leaves the unwrapped \<open>j\<close> as it is, and \<^verbatim>\<open>generateScript\<close> returns
  for the wrapped reply what it returns for the unwrapped one, when \<^verbatim>\<open>JSON.parse\<close> ignores
  \<open>ws2\<close> after \<open>j\<close> (as it does for white space).
\<close>

theorem code_fence_parsed_identically:
  assumes "j \<noteq> []" and "hd j = CHR ''{''" and "last j = CHR ''}''"
    and "\<forall>c\<in>set ws1. is_space c"
    and "JSON_parse (j @ ws2) = JSON_parse j"
  shows "cleanedJsonText (''```json'' @ ws1 @ j @ ws2 @ ''```'') = j @ ws2
         \<and> cleanedJsonText j = j
         \<and> generateScript_try JSON_parse (reply_text (''```json'' @ ws1 @ j @ ws2 @ ''```'')) story =
           generateScript_try JSON_parse (reply_text j) story
         \<and> generateScript JSON_parse (Some (reply_text (''```json'' @ ws1 @ j @ ws2 @ ''```''))) story st =
           generateScript JSON_parse (Some (reply_text j)) story st"
proof -
  have w: "cleanedJsonText (''```json'' @ ws1 @ j @ ws2 @ ''```'') = j @ ws2"
    using assms(1,2,4) by (intro cleaned_wrapped) (simp_all add: is_space_def)
  have u: "cleanedJsonText j = j"
    using assms(1,2,3) by (intro cleaned_unwrapped) simp_all
  have gen: "generateScript_try JSON_parse (reply_text x) story =
               (if x = [] then Inl (Error ''Text model returned no response.'')
                else JSON_parse (cleanedJsonText x))" for x
    by (simp add: generateScript_try_def reply_text_def)
  have ne: "''```json'' @ ws1 @ j @ ws2 @ ''```'' \<noteq> []"
    by simp
  have t: "generateScript_try JSON_parse (reply_text (''```json'' @ ws1 @ j @ ws2 @ ''```'')) story =
           generateScript_try JSON_parse (reply_text j) story"
    unfolding gen w u by (simp only: ne assms(1) assms(5) if_False)
  show ?thesis
    unfolding generateScript_def option.case t by (intro conjI w u refl)
qed

text \<open>
  C5 on the script of three panels between \<^verbatim>\<open>```json\<close> and \<^verbatim>\<open>```\<close>, each on a line of its
  own: the script is parsed.
\<close>

theorem code_fence_parsed_identically_witness:
  "cleanedJsonText (''```json'' @ nl @ json_three_panels @ nl @ ''```'') =
     json_three_panels @ nl
   \<and> generateScript_try example_script_parse
        (reply_text (''```json'' @ nl @ json_three_panels @ nl @ ''```'')) ''a cat'' =
      Inr (Some script_three_panels)"
proof -
  have h4: "\<forall>c\<in>set nl. is_space c"
    by (simp add: nl_def is_space_def)
  have "trim (json_three_panels @ nl) = json_three_panels"
    using h4 by (intro trim_trailing) (simp_all add: json_three_panels_shape is_space_def)
  then have h5: "example_script_parse (json_three_panels @ nl) =
                   example_script_parse json_three_panels"
    by (simp add: example_script_parse_def trim_unchanged json_three_panels_shape is_space_def)
  show ?thesis
    using code_fence_parsed_identically
            [OF json_three_panels_shape h4 h5, of "''a cat''" example_page]
    by (simp add: example_three_panels_script)
qed

text \<open>
  C6, as stated, fails on \<^verbatim>\<open>src/index.tsx\<close>, whose \<^verbatim>\<open>generate\<close> has no guard: called with the
  empty story it sends the instructions alone.
\<close>

theorem empty_story_requested_index:
  "requests example_page = []
   \<and> requests (generate_index example_payload_parse (reply_with (single_chunk [])) []
        example_page) = [SendMessageStream additionalInstructions_index]"
  by (simp add: generate_index_def reply_with_def single_chunk_def example_page_def Let_def)

text \<open>
  C6, amended: in \<^verbatim>\<open>src/unnamed/part_001\<close> and in \<^verbatim>\<open>src/unnamed/part_000\<close>, for a story that
  is empty or white space only, \<^verbatim>\<open>generate\<close> returns the page as it was, the log of
  requests included: no request is issued.
\<close>

theorem blank_story_no_request:
  assumes "\<forall>c\<in>set story. is_space c"
  shows "generate_001 JSON_parse textChat imageChat story st = st
         \<and> generate_000 chat story st = st"
proof -
  from assms have "trim story = []"
    by (simp add: trim_empty_iff)
  then show ?thesis
    by (simp add: generate_001_def generate_000_def split: option.splits)
qed

text \<open>C6, amended, on a story of a space, a tab and a line feed.\<close>

theorem blank_story_no_request_witness:
  "generate_001 example_script_parse (Some (reply_text json_three_panels))
     (Some second_reply_without_image) [CHR 0x20, CHR 0x09, CHR 0x0A] example_page = example_page
   \<and> generate_000 (Some (reply_with (single_chunk [text_part ''A'', image_part ''I1''])))
     [CHR 0x20, CHR 0x09, CHR 0x0A] example_page = example_page
   \<and> requests (generate_001 example_script_parse (Some (reply_text json_three_panels))
     (Some second_reply_without_image) [CHR 0x20, CHR 0x09, CHR 0x0A] example_page) = []"
proof -
  have h: "\<forall>c\<in>set [CHR 0x20, CHR 0x09, CHR 0x0A]. is_space c"
    by (simp add: is_space_def)
  show ?thesis
    using blank_story_no_request [OF h, of example_script_parse
            "Some (reply_text json_three_panels)" "Some second_reply_without_image" example_page
            "Some (reply_with (single_chunk [text_part ''A'', image_part ''I1'']))"]
    by (simp add: example_page_def)
qed

text \<open>Facts about the example values.\<close>

lemma json_null_panel_shape:
  "json_null_panel \<noteq> []" "hd json_null_panel = CHR ''{''"
  "last json_null_panel = CHR ''}''"
  by (simp_all add: json_null_panel_def dq_def)


lemma example_any_parse_null_panel:
  "example_any_parse json_null_panel = Inr value_null_panel"
proof -
  have "json_null_panel \<noteq> json_three_panels"
    by (simp add: json_null_panel_def json_three_panels_def dq_def)
  then show ?thesis
    by (simp add: example_any_parse_def trim_unchanged json_null_panel_shape is_space_def)
qed


lemma example_null_panel_value:
  "generateScript_any_try example_any_parse (reply_text json_null_panel) story =
     Inr value_null_panel"
  by (simp add: generateScript_any_try_def reply_text_def json_null_panel_shape
      cleaned_unwrapped example_any_parse_null_panel)

text \<open>
  A reply that is a script of one panel, \<^verbatim>\<open>null\<close>, passes the guard of line 126;
  \<^verbatim>\<open>panel.text\<close> of line 144 then throws outside the \<^verbatim>\<open>try\<close> block, and the run ends with
  the input disabled and no message.
\<close>

lemma null_panel_thrown_outside_try:
  "snd (generate_001_any example_any_parse (Some (reply_text json_null_panel))
      (Some second_reply_without_image) ''a cat'' example_page) \<noteq> None
   \<and> userInput_disabled (fst (generate_001_any example_any_parse
      (Some (reply_text json_null_panel)) (Some second_reply_without_image) ''a cat''
      example_page))
   \<and> error_hidden (fst (generate_001_any example_any_parse
      (Some (reply_text json_null_panel)) (Some second_reply_without_image) ''a cat''
      example_page))"
  by (simp add: generate_001_any_def generateScript_any_def example_null_panel_value trim_a_cat
      value_null_panel_def template_any_def string_of_nat_zero_iff setStatus_def setError_def
      example_page_def Let_def)




end
